theory Spec2Isabelle
  imports Main
begin

section \<open>JavaScript values used by the worker\<close>

text \<open>
  Strings are lists of 8-bit characters. An optional value (\<open>undefined\<close> or \<open>null\<close>
  in the source) is \<open>None\<close>. A JavaScript string is falsy exactly when it is absent or
  empty.
\<close>

definition truthy :: "string option \<Rightarrow> bool" where
  "truthy v = (case v of None \<Rightarrow> False | Some s \<Rightarrow> s \<noteq> [])"

text \<open>\<open>a || b\<close> on optional strings.\<close>

definition or_js :: "string option \<Rightarrow> string option \<Rightarrow> string option" where
  "or_js a b = (if truthy a then a else b)"

text \<open>\<open>s || ''\<close>.\<close>

definition or_empty :: "string option \<Rightarrow> string" where
  "or_empty v = (case v of None \<Rightarrow> [] | Some s \<Rightarrow> s)"

text \<open>White space and line terminators removed by \<open>String.prototype.trim\<close>.\<close>

definition is_space :: "char \<Rightarrow> bool" where
  "is_space c = (c \<in> set [CHR 0x09, CHR 0x0A, CHR 0x0B, CHR 0x0C, CHR 0x0D, CHR 0x20, CHR 0xA0])"

definition trim :: "string \<Rightarrow> string" where
  "trim s = rev (dropWhile is_space (rev (dropWhile is_space s)))"

definition startsWith :: "string \<Rightarrow> string \<Rightarrow> bool" where
  "startsWith s p = (take (length p) s = p)"

text \<open>\<open>s.split(c)\<close> for a one-character separator.\<close>

fun split_js :: "char \<Rightarrow> string \<Rightarrow> string list" where
  "split_js c [] = [[]]"
| "split_js c (x # xs) =
     (if x = c then [] # split_js c xs
      else (case split_js c xs of
              [] \<Rightarrow> [[x]]
            | y # ys \<Rightarrow> (x # y) # ys))"

text \<open>\<open>xs[i]\<close>, which is \<open>undefined\<close> out of range.\<close>

definition index_js :: "'a list \<Rightarrow> nat \<Rightarrow> 'a option" where
  "index_js xs i = (if i < length xs then Some (xs ! i) else None)"

text \<open>\<open>xs.find(p)\<close>.\<close>

definition find_js :: "('a \<Rightarrow> bool) \<Rightarrow> 'a list \<Rightarrow> 'a option" where
  "find_js p xs = List.find p xs"

text \<open>\<open>s.slice(-n)\<close>: the last \<open>n\<close> characters.\<close>

definition slice_last :: "nat \<Rightarrow> string \<Rightarrow> string" where
  "slice_last n s = drop (length s - n) s"

text \<open>\<open>xs.filter(Boolean).join(sep)\<close> on strings.\<close>

fun join_js :: "string \<Rightarrow> string list \<Rightarrow> string" where
  "join_js sep [] = []"
| "join_js sep [x] = x"
| "join_js sep (x # y # ys) = x @ sep @ join_js sep (y # ys)"

definition filter_Boolean :: "string list \<Rightarrow> string list" where
  "filter_Boolean xs = filter (\<lambda>s. s \<noteq> []) xs"

text \<open>A thrown value: an \<open>Error\<close> with its message, or anything else.\<close>

datatype exn = Error string | NonError

text \<open>JSON bodies passed to \<open>c.json\<close>.\<close>

datatype json =
    JNull
  | JBool bool
  | JNum int
  | JStr string
  | JArr "json list"
  | JObj "(string \<times> json) list"

text \<open>What a handler hands back: \<open>c.json(body, status)\<close>, \<open>c.html(body, status)\<close>
  or \<open>c.redirect(url, status)\<close>.\<close>

datatype response =
    Json json nat
  | Html string nat
  | Redirect string nat

fun status_of :: "response \<Rightarrow> nat" where
  "status_of (Json b s) = s"
| "status_of (Html b s) = s"
| "status_of (Redirect u s) = s"

section \<open>Environment and configuration (config.ts)\<close>

record env =
  DEV_MODE :: "string option"
  E2E_TEST_MODE :: "string option"
  CF_ACCESS_TEAM_DOMAIN :: "string option"
  CF_ACCESS_AUD :: "string option"
  GATEWAY_TOKEN :: "string option"
  MOLTBOT_GATEWAY_TOKEN :: "string option"
  R2_ACCESS_KEY_ID :: "string option"
  R2_SECRET_ACCESS_KEY :: "string option"
  CF_ACCOUNT_ID :: "string option"
  R2_BUCKET_NAME :: "string option"

definition getR2BucketName :: "env \<Rightarrow> string" where
  "getR2BucketName e = (if truthy (R2_BUCKET_NAME e) then or_empty (R2_BUCKET_NAME e) else ''clawworker-data'')"

text \<open>\<open>env.GATEWAY_TOKEN ?? env.MOLTBOT_GATEWAY_TOKEN\<close>: the legacy name is read only
  when the preferred one is absent.\<close>

definition getGatewayToken :: "env \<Rightarrow> string option" where
  "getGatewayToken e = (case GATEWAY_TOKEN e of Some t \<Rightarrow> Some t | None \<Rightarrow> MOLTBOT_GATEWAY_TOKEN e)"

section \<open>Access middleware (auth/middleware.ts)\<close>

text \<open>
  A request as the middleware reads it: the decoded query parameters of \<open>c.req.url\<close>
  in order (\<open>searchParams.get\<close> returns the first value of a name) and the header
  lookup \<open>c.req.header\<close>.
\<close>

record request =
  searchParams :: "(string \<times> string) list"
  header :: "string \<Rightarrow> string option"

definition searchParams_get :: "request \<Rightarrow> string \<Rightarrow> string option" where
  "searchParams_get r k = map_of (searchParams r) k"

datatype response_type = json | html

record AccessMiddlewareOptions =
  type :: response_type
  redirectOnMissing :: bool

record accessUser =
  email :: "string option"
  name :: "string option"

text \<open>The middleware either calls \<open>next()\<close> with \<open>accessUser\<close> set, or answers itself.\<close>

datatype decision = Next accessUser | Respond response

definition isDevMode :: "env \<Rightarrow> bool" where
  "isDevMode e = (DEV_MODE e = Some ''true'')"

definition isE2ETestMode :: "env \<Rightarrow> bool" where
  "isE2ETestMode e = (E2E_TEST_MODE e = Some ''true'')"

definition extractJWT :: "request \<Rightarrow> string option" where
  "extractJWT r =
     (let jwtHeader = header r ''CF-Access-JWT-Assertion'';
          jwtCookie =
            (case header r ''Cookie'' of
               None \<Rightarrow> None
             | Some cs \<Rightarrow>
                 (case find_js (\<lambda>cookie. startsWith (trim cookie) ''CF_Authorization='')
                         (split_js CHR '';'' cs) of
                    None \<Rightarrow> None
                  | Some cookie \<Rightarrow> index_js (split_js CHR ''='' cookie) 1))
      in or_js (or_js jwtHeader jwtCookie) None)"

definition extractGatewayToken :: "request \<Rightarrow> string option" where
  "extractGatewayToken r =
     (let queryToken = searchParams_get r ''token'';
          headerToken = header r ''X-Gateway-Token''
      in or_js (or_js queryToken headerToken) None)"

definition hasAccess :: "env \<Rightarrow> bool" where
  "hasAccess e = (truthy (CF_ACCESS_TEAM_DOMAIN e) \<and> truthy (CF_ACCESS_AUD e))"

definition isBootstrapMode :: "env \<Rightarrow> bool" where
  "isBootstrapMode e = (\<not> hasAccess e \<and> truthy (getGatewayToken e))"

definition dev_user :: accessUser where
  "dev_user = \<lparr>email = Some ''dev@localhost'', name = Some ''Dev User''\<rparr>"

definition bootstrap_user :: accessUser where
  "bootstrap_user = \<lparr>email = Some ''bootstrap'', name = Some ''Setup (Gateway Token)''\<rparr>"

definition bootstrap_unauthorized_json :: json where
  "bootstrap_unauthorized_json = JObj
     [(''error'', JStr ''Unauthorized''),
      (''hint'', JStr ''Add ?token=YOUR_GATEWAY_TOKEN to the URL, or set up Cloudflare Access for production'')]"

definition bootstrap_unauthorized_html :: string where
  \<open>bootstrap_unauthorized_html =
    ''\<newline>          <html>'' @
    ''\<newline>            <body>'' @
    ''\<newline>              <h1>Admin UI - Authentication Required</h1>'' @
    ''\<newline>              <p>Add your gateway token to the URL: <code>/_admin/?token=YOUR_TOKEN</code></p>'' @
    ''\<newline>              <p>Or set up <a href="https://developers.cloudflare.com/cloudflare-one/policies/access/">Cloudflare Access</a> for production (CF_ACCESS_TEAM_DOMAIN, CF_ACCESS_AUD).</p>'' @
    ''\<newline>            </body>'' @
    ''\<newline>          </html>'' @
    ''\<newline>        ''\<close>

definition not_configured_json :: json where
  "not_configured_json = JObj
     [(''error'', JStr ''Cloudflare Access not configured''),
      (''hint'', JStr ''Set CF_ACCESS_TEAM_DOMAIN and CF_ACCESS_AUD, or ensure GATEWAY_TOKEN is set for bootstrap mode'')]"

definition not_configured_html :: string where
  \<open>not_configured_html =
    ''\<newline>        <html>'' @
    ''\<newline>          <body>'' @
    ''\<newline>            <h1>Admin UI Not Configured</h1>'' @
    ''\<newline>            <p>Set CF_ACCESS_TEAM_DOMAIN and CF_ACCESS_AUD, or ensure GATEWAY_TOKEN is set.</p>'' @
    ''\<newline>          </body>'' @
    ''\<newline>        </html>'' @
    ''\<newline>        ''\<close>

definition missing_jwt_json :: json where
  "missing_jwt_json = JObj
     [(''error'', JStr ''Unauthorized''),
      (''hint'', JStr ''Missing Cloudflare Access JWT. Ensure this route is protected by Cloudflare Access.'')]"

definition missing_jwt_html :: "string \<Rightarrow> string" where
  \<open>missing_jwt_html teamDomain =
    ''\<newline>          <html>'' @
    ''\<newline>            <body>'' @
    ''\<newline>              <h1>Unauthorized</h1>'' @
    ''\<newline>              <p>Missing Cloudflare Access token.</p>'' @
    ''\<newline>              <a href="https://'' @ teamDomain @ ''">Login</a>'' @
    ''\<newline>            </body>'' @
    ''\<newline>          </html>'' @
    ''\<newline>        ''\<close>

definition invalid_jwt_json :: "exn \<Rightarrow> json" where
  "invalid_jwt_json err = JObj
     [(''error'', JStr ''Unauthorized''),
      (''details'', JStr (case err of Error m \<Rightarrow> m | NonError \<Rightarrow> ''JWT verification failed''))]"

definition invalid_jwt_html :: "string \<Rightarrow> string" where
  \<open>invalid_jwt_html teamDomain =
    ''\<newline>          <html>'' @
    ''\<newline>            <body>'' @
    ''\<newline>              <h1>Unauthorized</h1>'' @
    ''\<newline>              <p>Your Cloudflare Access session is invalid or expired.</p>'' @
    ''\<newline>              <a href="https://'' @ teamDomain @ ''">Login again</a>'' @
    ''\<newline>            </body>'' @
    ''\<newline>          </html>'' @
    ''\<newline>        ''\<close>

text \<open>
  \<open>verifyAccessJWT\<close> lives in \<open>auth/jwt.ts\<close> and is a parameter here: given the token,
  the team domain and the audience it returns the payload or throws. The downstream
  \<open>next()\<close> is taken to return normally.
\<close>

type_synonym verifier = "string \<Rightarrow> string \<Rightarrow> string \<Rightarrow> exn + accessUser"

definition createAccessMiddleware ::
  "verifier \<Rightarrow> AccessMiddlewareOptions \<Rightarrow> env \<Rightarrow> request \<Rightarrow> decision" where
  "createAccessMiddleware verifyAccessJWT options e c =
     (if isDevMode e \<or> isE2ETestMode e then Next dev_user
      else
        let teamDomain = CF_ACCESS_TEAM_DOMAIN e;
            expectedAud = CF_ACCESS_AUD e
        in
        if \<not> truthy teamDomain \<or> \<not> truthy expectedAud then
          (if isBootstrapMode e then
             (let providedToken = extractGatewayToken c;
                  gatewayToken = getGatewayToken e
              in
              if truthy providedToken \<and> truthy gatewayToken \<and> providedToken = gatewayToken
              then Next bootstrap_user
              else if type options = json
              then Respond (Json bootstrap_unauthorized_json 401)
              else Respond (Html bootstrap_unauthorized_html 401))
           else if type options = json
           then Respond (Json not_configured_json 500)
           else Respond (Html not_configured_html 500))
        else
          (let jwt = extractJWT c in
           if \<not> truthy jwt then
             (if type options = html \<and> redirectOnMissing options
              then Respond (Redirect (''https://'' @ or_empty teamDomain) 302)
              else if type options = json
              then Respond (Json missing_jwt_json 401)
              else Respond (Html (missing_jwt_html (or_empty teamDomain)) 401))
           else
             (case verifyAccessJWT (or_empty jwt) (or_empty teamDomain) (or_empty expectedAud) of
                Inr payload \<Rightarrow> Next \<lparr>email = email payload, name = name payload\<rparr>
              | Inl err \<Rightarrow>
                  if type options = json
                  then Respond (Json (invalid_jwt_json err) 401)
                  else Respond (Html (invalid_jwt_html (or_empty teamDomain)) 401))))"

section \<open>The sandbox and its calls\<close>

text \<open>
  The sandbox is the external container API. Every call is asynchronous: it either
  resolves to a value or rejects with a thrown value, and it may change the container.
  The container gets an abstract state \<open>'st\<close>; the record below holds the behaviour of
  each call. \<open>waitForProcess\<close> and \<open>ensureMoltbotGateway\<close> are functions of the gateway
  module that act on the sandbox only, so they are parameters of the same record.
\<close>

record ExecResult =
  stdout :: "string option"
  stderr :: "string option"
  success :: bool
  exitCode :: "int option"

type_synonym proc = nat

record ProcessLogs =
  logs_stdout :: "string option"
  logs_stderr :: "string option"

record 'st sandbox =
  exec :: "string \<Rightarrow> nat option \<Rightarrow> 'st \<Rightarrow> (exn + ExecResult) \<times> 'st"
  writeFile :: "string \<Rightarrow> string \<Rightarrow> 'st \<Rightarrow> (exn + unit) \<times> 'st"
  startProcess :: "string \<Rightarrow> 'st \<Rightarrow> (exn + proc) \<times> 'st"
  getLogs :: "proc \<Rightarrow> 'st \<Rightarrow> (exn + ProcessLogs) \<times> 'st"
  proc_exitCode :: "proc \<Rightarrow> 'st \<Rightarrow> int option"
  waitForProcess :: "proc \<Rightarrow> nat \<Rightarrow> 'st \<Rightarrow> (exn + unit) \<times> 'st"
  ensureMoltbotGateway :: "env \<Rightarrow> 'st \<Rightarrow> (exn + unit) \<times> 'st"

text \<open>The calls a handler makes, in the order it makes them. A \<open>startProcess\<close> call is
  recorded with the process handle it resolved to, if it did.\<close>

datatype call =
    WriteFile string string
  | Exec string "nat option"
  | StartProcess string "proc option"
  | WaitForProcess proc nat
  | GetLogs proc
  | EnsureGateway
  | Sleep nat

record 'st world =
  state :: 'st
  calls :: "call list"

text \<open>An asynchronous computation: it ends in a thrown value or a result, and a new world.\<close>

type_synonym ('a, 'st) io = "'st world \<Rightarrow> (exn + 'a) \<times> 'st world"

definition io_return :: "'a \<Rightarrow> ('a, 'st) io" where
  "io_return x = (\<lambda>w. (Inr x, w))"

text \<open>\<open>await m; f\<close>: a rejection of \<open>m\<close> leaves the function at once.\<close>

definition io_bind :: "('a, 'st) io \<Rightarrow> ('a \<Rightarrow> ('b, 'st) io) \<Rightarrow> ('b, 'st) io" where
  "io_bind m f = (\<lambda>w. case m w of (Inl e, w') \<Rightarrow> (Inl e, w') | (Inr x, w') \<Rightarrow> f x w')"

text \<open>\<open>try { m } catch (err) { h }\<close>.\<close>

definition io_catch :: "('a, 'st) io \<Rightarrow> (exn \<Rightarrow> ('a, 'st) io) \<Rightarrow> ('a, 'st) io" where
  "io_catch m h = (\<lambda>w. case m w of (Inl e, w') \<Rightarrow> h e w' | (Inr x, w') \<Rightarrow> (Inr x, w'))"

definition record_call :: "call \<Rightarrow> 'st \<Rightarrow> 'st world \<Rightarrow> 'st world" where
  "record_call c s w = \<lparr>state = s, calls = calls w @ [c]\<rparr>"

definition sandbox_exec :: "'st sandbox \<Rightarrow> string \<Rightarrow> nat option \<Rightarrow> (ExecResult, 'st) io" where
  "sandbox_exec sb cmd t = (\<lambda>w. case exec sb cmd t (state w) of
      (r, s) \<Rightarrow> (r, record_call (Exec cmd t) s w))"

definition sandbox_writeFile :: "'st sandbox \<Rightarrow> string \<Rightarrow> string \<Rightarrow> (unit, 'st) io" where
  "sandbox_writeFile sb path content = (\<lambda>w. case writeFile sb path content (state w) of
      (r, s) \<Rightarrow> (r, record_call (WriteFile path content) s w))"

definition sandbox_startProcess :: "'st sandbox \<Rightarrow> string \<Rightarrow> (proc, 'st) io" where
  "sandbox_startProcess sb cmd = (\<lambda>w. case startProcess sb cmd (state w) of
      (r, s) \<Rightarrow>
        (r, record_call (StartProcess cmd (case r of Inl err \<Rightarrow> None | Inr p \<Rightarrow> Some p)) s w))"

definition sandbox_getLogs :: "'st sandbox \<Rightarrow> proc \<Rightarrow> (ProcessLogs, 'st) io" where
  "sandbox_getLogs sb p = (\<lambda>w. case getLogs sb p (state w) of
      (r, s) \<Rightarrow> (r, record_call (GetLogs p) s w))"

definition sandbox_waitForProcess :: "'st sandbox \<Rightarrow> proc \<Rightarrow> nat \<Rightarrow> (unit, 'st) io" where
  "sandbox_waitForProcess sb p t = (\<lambda>w. case waitForProcess sb p t (state w) of
      (r, s) \<Rightarrow> (r, record_call (WaitForProcess p t) s w))"

definition sandbox_ensureMoltbotGateway :: "'st sandbox \<Rightarrow> env \<Rightarrow> (unit, 'st) io" where
  "sandbox_ensureMoltbotGateway sb e = (\<lambda>w. case ensureMoltbotGateway sb e (state w) of
      (r, s) \<Rightarrow> (r, record_call EnsureGateway s w))"

text \<open>Reading \<open>proc.exitCode\<close> is a plain property read.\<close>

definition read_exitCode :: "'st sandbox \<Rightarrow> proc \<Rightarrow> (int option, 'st) io" where
  "read_exitCode sb p = (\<lambda>w. (Inr (proc_exitCode sb p (state w)), w))"


text \<open>The calls made since the world \<open>w\<close>.\<close>

definition calls_since :: "'st world \<Rightarrow> 'st world \<Rightarrow> call list" where
  "calls_since w w' = drop (length (calls w)) (calls w')"

section \<open>Credential file and transfer command (gateway/r2.ts)\<close>

definition RCLONE_TEMP_CONFIG :: string where
  "RCLONE_TEMP_CONFIG = ''/tmp/rclone-fresh.conf''"

text \<open>\<open>s.replace(/\r?\n/g, '')\<close>: every line feed goes, with the carriage return
  right before it when there is one.\<close>

fun strip_newlines :: "string \<Rightarrow> string" where
  "strip_newlines [] = []"
| "strip_newlines [c] = (if c = CHR 0x0A then [] else [c])"
| "strip_newlines (c # d # cs) =
     (if c = CHR 0x0A then strip_newlines (d # cs)
      else if c = CHR 0x0D \<and> d = CHR 0x0A then strip_newlines cs
      else c # strip_newlines (d # cs))"

definition safe :: "string \<Rightarrow> string" where
  "safe s = trim (strip_newlines s)"

definition buildRcloneConfigContent :: "string \<Rightarrow> string \<Rightarrow> string \<Rightarrow> string" where
  "buildRcloneConfigContent accessKey secretKey accountId =
     join_js ''\<newline>''
       [''[r2]'',
        ''type = s3'',
        ''provider = Cloudflare'',
        ''access_key_id = '' @ safe accessKey,
        ''secret_access_key = '' @ safe secretKey,
        ''endpoint = https://'' @ safe accountId @ ''.r2.cloudflarestorage.com'',
        ''acl = private'',
        ''no_check_bucket = true'']"

text \<open>\<open>env.X?.trim() ?? ''\<close>.\<close>

definition trimmed :: "string option \<Rightarrow> string" where
  "trimmed v = or_empty (map_option trim v)"

record RcloneResult =
  rclone_stdout :: string
  rclone_stderr :: string
  rclone_success :: bool
  rclone_exitCode :: int

definition rclone_command :: "string \<Rightarrow> string" where
  "rclone_command command = ''rclone '' @ command @ '' --config '' @ RCLONE_TEMP_CONFIG @ '' 2>&1 || true''"

definition rm_command :: string where
  "rm_command = ''rm -f '' @ RCLONE_TEMP_CONFIG"

definition fresh_config :: "env \<Rightarrow> string" where
  "fresh_config e = buildRcloneConfigContent (trimmed (R2_ACCESS_KEY_ID e))
     (trimmed (R2_SECRET_ACCESS_KEY e)) (trimmed (CF_ACCOUNT_ID e))"

definition rclone_result :: "ExecResult \<Rightarrow> RcloneResult" where
  "rclone_result result =
     \<lparr>rclone_stdout = or_empty (stdout result),
      rclone_stderr = or_empty (stderr result),
      rclone_success = success result,
      rclone_exitCode = (case exitCode result of
                           Some c \<Rightarrow> c
                         | None \<Rightarrow> (if success result then 0 else 1))\<rparr>"

definition runRcloneWithFreshConfig ::
  "'st sandbox \<Rightarrow> env \<Rightarrow> string \<Rightarrow> nat option \<Rightarrow> (RcloneResult, 'st) io" where
  "runRcloneWithFreshConfig sb e command timeout =
     (let accessKey = trimmed (R2_ACCESS_KEY_ID e);
          secretKey = trimmed (R2_SECRET_ACCESS_KEY e);
          accountId = trimmed (CF_ACCOUNT_ID e)
      in
      if accessKey = [] \<or> secretKey = [] \<or> accountId = [] then
        io_return \<lparr>rclone_stdout = [], rclone_stderr = ''R2 not configured'',
                   rclone_success = False, rclone_exitCode = 1\<rparr>
      else
        let configContent = buildRcloneConfigContent accessKey secretKey accountId in
        io_bind (sandbox_writeFile sb RCLONE_TEMP_CONFIG configContent) (\<lambda>_.
        io_bind (sandbox_exec sb (rclone_command command)
                   (Some (case timeout of Some t \<Rightarrow> t | None \<Rightarrow> 15000))) (\<lambda>result.
        io_bind (sandbox_exec sb rm_command None) (\<lambda>_.
        io_return (rclone_result result)))))"

section \<open>Sync to R2 (gateway/sync.ts)\<close>

record SyncResult =
  sync_success :: bool
  lastSync :: "string option"
  sync_error :: "string option"
  details :: "string option"

definition RCLONE_FLAGS :: string where
  "RCLONE_FLAGS = ''--transfers=16 --fast-list --s3-no-check-bucket''"

definition LAST_SYNC_FILE :: string where
  "LAST_SYNC_FILE = ''/tmp/.last-sync''"

definition SYNC_TIMEOUT :: nat where
  "SYNC_TIMEOUT = 120000"

definition rcloneRemote :: "env \<Rightarrow> string \<Rightarrow> string" where
  "rcloneRemote e prefix = ''r2:'' @ getR2BucketName e @ ''/'' @ prefix"

definition hasR2Config :: "env \<Rightarrow> bool" where
  "hasR2Config e =
     (truthy (map_option trim (R2_ACCESS_KEY_ID e)) \<and>
      truthy (map_option trim (R2_SECRET_ACCESS_KEY e)) \<and>
      truthy (map_option trim (CF_ACCOUNT_ID e)))"

definition detect_command :: string where
  "detect_command =
     ''test -f /root/.openclaw/openclaw.json && echo openclaw || '' @
     ''(test -f /root/.clawdbot/clawdbot.json && echo clawdbot || echo none)''"

definition detectConfigDir :: "'st sandbox \<Rightarrow> (string option, 'st) io" where
  "detectConfigDir sb =
     io_bind (sandbox_exec sb detect_command None) (\<lambda>check.
     let result = map_option trim (stdout check) in
     if result = Some ''openclaw'' then io_return (Some ''/root/.openclaw'')
     else if result = Some ''clawdbot'' then io_return (Some ''/root/.clawdbot'')
     else io_return None)"

definition config_sync_command :: "env \<Rightarrow> string \<Rightarrow> string" where
  \<open>config_sync_command e configDir =
     ''sync '' @ configDir @ ''/ '' @ rcloneRemote e ''openclaw/'' @ '' '' @ RCLONE_FLAGS @
     '' --exclude='' @ [CHR 0x27] @ ''*.lock'' @ [CHR 0x27] @
     '' --exclude='' @ [CHR 0x27] @ ''*.log'' @ [CHR 0x27] @
     '' --exclude='' @ [CHR 0x27] @ ''*.tmp'' @ [CHR 0x27] @
     '' --exclude='' @ [CHR 0x27] @ ''.git/**'' @ [CHR 0x27]\<close>

definition workspace_sync_command :: "env \<Rightarrow> string" where
  \<open>workspace_sync_command e =
     ''sync /root/clawd/ '' @ rcloneRemote e ''workspace/'' @ '' '' @ RCLONE_FLAGS @
     '' --exclude='' @ [CHR 0x27] @ ''skills/**'' @ [CHR 0x27] @
     '' --exclude='' @ [CHR 0x27] @ ''.git/**'' @ [CHR 0x27]\<close>

definition skills_sync_command :: "env \<Rightarrow> string" where
  "skills_sync_command e =
     ''sync /root/clawd/skills/ '' @ rcloneRemote e ''skills/'' @ '' '' @ RCLONE_FLAGS"

definition config_sync_details :: "RcloneResult \<Rightarrow> string" where
  "config_sync_details configResult =
     (let errOut = slice_last 2000
            (join_js ''\<newline>---\<newline>''
               (filter_Boolean [rclone_stderr configResult, rclone_stdout configResult]))
      in if errOut \<noteq> [] then errOut
         else ''No error output from rclone (exit code may indicate failure)'')"

text \<open>Everything after a successful config sync: the two optional syncs, whose results
  are dropped, and the timestamp marker.\<close>

definition sync_after_config :: "'st sandbox \<Rightarrow> env \<Rightarrow> (SyncResult, 'st) io" where
  "sync_after_config sb e =
     io_bind (sandbox_exec sb ''test -d /root/clawd && echo yes'' None) (\<lambda>hasWorkspace.
     io_bind (if map_option trim (stdout hasWorkspace) = Some ''yes''
              then io_bind (runRcloneWithFreshConfig sb e (workspace_sync_command e)
                              (Some SYNC_TIMEOUT)) (\<lambda>_. io_return ())
              else io_return ()) (\<lambda>_.
     io_bind (sandbox_exec sb ''test -d /root/clawd/skills && echo yes'' None) (\<lambda>hasSkills.
     io_bind (if map_option trim (stdout hasSkills) = Some ''yes''
              then io_bind (runRcloneWithFreshConfig sb e (skills_sync_command e)
                              (Some SYNC_TIMEOUT)) (\<lambda>_. io_return ())
              else io_return ()) (\<lambda>_.
     io_bind (sandbox_exec sb (''date -Iseconds > '' @ LAST_SYNC_FILE) None) (\<lambda>_.
     io_bind (sandbox_exec sb (''cat '' @ LAST_SYNC_FILE) None) (\<lambda>tsResult.
     io_return \<lparr>sync_success = True, lastSync = map_option trim (stdout tsResult),
                sync_error = None, details = None\<rparr>))))))"

definition syncToR2 :: "'st sandbox \<Rightarrow> env \<Rightarrow> (SyncResult, 'st) io" where
  "syncToR2 sb e =
     (if \<not> hasR2Config e then
        io_return \<lparr>sync_success = False, lastSync = None,
                   sync_error = Some ''R2 storage is not configured'', details = None\<rparr>
      else
        io_bind (detectConfigDir sb) (\<lambda>configDir.
        case configDir of
          None \<Rightarrow>
            io_return \<lparr>sync_success = False, lastSync = None,
                       sync_error = Some ''Sync aborted: no config file found'',
                       details = Some ''Neither openclaw.json nor clawdbot.json found in config directory.''\<rparr>
        | Some dir \<Rightarrow>
            io_bind (runRcloneWithFreshConfig sb e (config_sync_command e dir)
                       (Some SYNC_TIMEOUT)) (\<lambda>configResult.
            if \<not> rclone_success configResult then
              io_return \<lparr>sync_success = False, lastSync = None,
                         sync_error = Some ''Config sync failed'',
                         details = Some (config_sync_details configResult)\<rparr>
            else sync_after_config sb e)))"

section \<open>Admin API handlers (routes/api.ts)\<close>

definition CLI_TIMEOUT_MS :: nat where
  "CLI_TIMEOUT_MS = 20000"

text \<open>\<open>error instanceof Error ? error.message : 'Unknown error'\<close>.\<close>

definition error_message :: "exn \<Rightarrow> string" where
  "error_message err = (case err of Error m \<Rightarrow> m | NonError \<Rightarrow> ''Unknown error'')"

definition toLowerCase_char :: "char \<Rightarrow> char" where
  "toLowerCase_char c =
     (let n = (of_char c :: nat)
      in if (65 \<le> n \<and> n \<le> 90) \<or> (192 \<le> n \<and> n \<le> 222 \<and> n \<noteq> 215)
         then char_of (n + 32) else c)"

definition toLowerCase :: "string \<Rightarrow> string" where
  "toLowerCase s = map toLowerCase_char s"

fun includes_js :: "string \<Rightarrow> string \<Rightarrow> bool" where
  "includes_js [] sub = (sub = [])"
| "includes_js (x # xs) sub = (startsWith (x # xs) sub \<or> includes_js xs sub)"

text \<open>Decimal rendering of a number inside a template literal.\<close>

function show_nat :: "nat \<Rightarrow> string" where
  "show_nat n = (if n < 10 then [char_of (48 + n)]
                 else show_nat (n div 10) @ [char_of (48 + n mod 10)])"
  by pat_completeness auto
termination
  by (relation "measure id") auto

subsection \<open>POST /devices/approve-all\<close>

record PendingDevice =
  requestId :: string

record ApprovalOutcome =
  outcome_requestId :: string
  outcome_success :: bool
  outcome_error :: "string option"

definition tokenArg_of :: "env \<Rightarrow> string" where
  "tokenArg_of e =
     (let token = getGatewayToken e
      in if truthy token then '' --token '' @ or_empty token else [])"

definition list_command :: "string \<Rightarrow> string" where
  "list_command tokenArg = ''openclaw devices list --json --url ws://localhost:18789'' @ tokenArg"

definition approve_command :: "string \<Rightarrow> string \<Rightarrow> string" where
  "approve_command rid tokenArg =
     ''openclaw devices approve '' @ rid @ '' --url ws://localhost:18789'' @ tokenArg"

text \<open>The body of the \<open>try\<close> block inside the loop.\<close>

definition approve_attempt :: "'st sandbox \<Rightarrow> string \<Rightarrow> PendingDevice \<Rightarrow> (ApprovalOutcome, 'st) io" where
  "approve_attempt sb tokenArg device =
     io_bind (sandbox_startProcess sb (approve_command (requestId device) tokenArg)) (\<lambda>approveProc.
     io_bind (sandbox_waitForProcess sb approveProc CLI_TIMEOUT_MS) (\<lambda>_.
     io_bind (sandbox_getLogs sb approveProc) (\<lambda>approveLogs.
     io_bind (read_exitCode sb approveProc) (\<lambda>code.
     let success =
           ((case logs_stdout approveLogs of
               None \<Rightarrow> False
             | Some out \<Rightarrow> includes_js (toLowerCase out) ''approved'')
            \<or> code = Some 0)
     in io_return \<lparr>outcome_requestId = requestId device, outcome_success = success,
                   outcome_error = None\<rparr>))))"

text \<open>One turn of the loop: the \<open>try\<close> block with its \<open>catch\<close>.\<close>

definition approve_device :: "'st sandbox \<Rightarrow> string \<Rightarrow> PendingDevice \<Rightarrow> (ApprovalOutcome, 'st) io" where
  "approve_device sb tokenArg device =
     io_catch (approve_attempt sb tokenArg device)
       (\<lambda>err. io_return \<lparr>outcome_requestId = requestId device, outcome_success = False,
                          outcome_error = Some (error_message err)\<rparr>)"

text \<open>\<open>for (const device of pending) { ... results.push(...) }\<close>.\<close>

fun approve_loop ::
  "'st sandbox \<Rightarrow> string \<Rightarrow> PendingDevice list \<Rightarrow> ApprovalOutcome list \<Rightarrow> (ApprovalOutcome list, 'st) io" where
  "approve_loop sb tokenArg [] results = io_return results"
| "approve_loop sb tokenArg (device # rest) results =
     io_bind (approve_device sb tokenArg device) (\<lambda>r.
     approve_loop sb tokenArg rest (results @ [r]))"

definition outcome_json :: "ApprovalOutcome \<Rightarrow> json" where
  "outcome_json r = JObj
     ([(''requestId'', JStr (outcome_requestId r)), (''success'', JBool (outcome_success r))] @
      (case outcome_error r of None \<Rightarrow> [] | Some m \<Rightarrow> [(''error'', JStr m)]))"

definition approved_of :: "ApprovalOutcome list \<Rightarrow> string list" where
  "approved_of results = map outcome_requestId (filter outcome_success results)"

definition failed_of :: "ApprovalOutcome list \<Rightarrow> ApprovalOutcome list" where
  "failed_of results = filter (\<lambda>r. \<not> outcome_success r) results"

definition approve_all_response :: "PendingDevice list \<Rightarrow> ApprovalOutcome list \<Rightarrow> response" where
  "approve_all_response pending results =
     (let approvedCount = length (filter outcome_success results)
      in Json (JObj
           [(''approved'', JArr (map JStr (approved_of results))),
            (''failed'', JArr (map outcome_json (failed_of results))),
            (''message'', JStr (''Approved '' @ show_nat approvedCount @ '' of '' @
                                show_nat (length pending) @ '' device(s)''))]) 200)"

text \<open>
  The device list is cut out of the CLI output with a regular expression and read with
  \<open>JSON.parse\<close>; that step is the parameter \<open>parse\<close>: \<open>Inl\<close> when parsing throws,
  otherwise the list \<open>data.pending || []\<close> (empty when the output holds no JSON object).
\<close>

definition approve_all ::
  "'st sandbox \<Rightarrow> (string \<Rightarrow> exn + PendingDevice list) \<Rightarrow> env \<Rightarrow> (response, 'st) io" where
  "approve_all sb parse e =
     io_catch
       (io_bind (sandbox_ensureMoltbotGateway sb e) (\<lambda>_.
        let tokenArg = tokenArg_of e in
        io_bind (sandbox_startProcess sb (list_command tokenArg)) (\<lambda>listProc.
        io_bind (sandbox_waitForProcess sb listProc CLI_TIMEOUT_MS) (\<lambda>_.
        io_bind (sandbox_getLogs sb listProc) (\<lambda>listLogs.
        let out = or_empty (logs_stdout listLogs) in
        case parse out of
          Inl _ \<Rightarrow>
            io_return (Json (JObj [(''error'', JStr ''Failed to parse device list''),
                                   (''raw'', JStr out)]) 500)
        | Inr pending \<Rightarrow>
            if length pending = 0 then
              io_return (Json (JObj [(''approved'', JArr []),
                                     (''message'', JStr ''No pending devices to approve'')]) 200)
            else
              io_bind (approve_loop sb tokenArg pending []) (\<lambda>results.
              io_return (approve_all_response pending results)))))))
       (\<lambda>error. io_return (Json (JObj [(''error'', JStr (error_message error))]) 500))"

subsection \<open>GET /storage/test\<close>





section \<open>Observations on call traces\<close>

definition is_start :: "call \<Rightarrow> bool" where
  "is_start c = (case c of StartProcess cmd h \<Rightarrow> True | _ \<Rightarrow> False)"

text \<open>
  The calls of one turn of the approve-all loop, against the outcome the turn recorded.
  The turn starts the approve process of its device. An outcome without an \<open>error\<close>
  field comes from a \<open>try\<close> block that ran to its end: the process was started, then
  waited for with the CLI timeout, then its logs were read. An outcome with an \<open>error\<close>
  field comes from the \<open>catch\<close>: it is a failure, and the turn stopped at the call that
  threw.
\<close>

definition turn_ok :: "string \<Rightarrow> PendingDevice \<Rightarrow> ApprovalOutcome \<Rightarrow> call list \<Rightarrow> bool" where
  "turn_ok tokenArg device r cs =
     (case cs of
        StartProcess cmd h # rest \<Rightarrow>
          cmd = approve_command (requestId device) tokenArg \<and>
          outcome_requestId r = requestId device \<and>
          (case h of
             None \<Rightarrow> rest = [] \<and> \<not> outcome_success r \<and> outcome_error r \<noteq> None
           | Some p \<Rightarrow>
               if outcome_error r = None
               then rest = [WaitForProcess p CLI_TIMEOUT_MS, GetLogs p]
               else \<not> outcome_success r \<and>
                    (rest = [WaitForProcess p CLI_TIMEOUT_MS] \<or>
                     rest = [WaitForProcess p CLI_TIMEOUT_MS, GetLogs p]))
      | _ \<Rightarrow> False)"

text \<open>The turns of the loop, one per pending device and outcome, in list order.\<close>

fun one_after_another ::
  "string \<Rightarrow> PendingDevice list \<Rightarrow> ApprovalOutcome list \<Rightarrow> call list list \<Rightarrow> bool" where
  "one_after_another tokenArg [] [] [] = True"
| "one_after_another tokenArg (d # ds) (r # rs) (cs # css) =
     (turn_ok tokenArg d r cs \<and> one_after_another tokenArg ds rs css)"
| "one_after_another tokenArg ds rs css = False"

text \<open>A field of a JSON object response, when the response has it.\<close>

definition body_field :: "string \<Rightarrow> response \<Rightarrow> json option" where
  "body_field k r = (case r of Json (JObj kvs) s \<Rightarrow> map_of kvs k | _ \<Rightarrow> None)"



text \<open>A sandbox whose \<open>exec\<close> and \<open>writeFile\<close> always resolve.\<close>

definition never_throws :: "'st sandbox \<Rightarrow> bool" where
  "never_throws sb =
     ((\<forall>cmd t s. \<exists>r s'. exec sb cmd t s = (Inr r, s')) \<and>
      (\<forall>path content s. \<exists>s'. writeFile sb path content s = (Inr (), s')))"

section \<open>Example environments, requests and sandboxes\<close>

definition env_empty :: env where
  "env_empty = \<lparr>DEV_MODE = None, E2E_TEST_MODE = None, CF_ACCESS_TEAM_DOMAIN = None,
     CF_ACCESS_AUD = None, GATEWAY_TOKEN = None, MOLTBOT_GATEWAY_TOKEN = None,
     R2_ACCESS_KEY_ID = None, R2_SECRET_ACCESS_KEY = None, CF_ACCOUNT_ID = None,
     R2_BUCKET_NAME = None\<rparr>"

definition env_bootstrap :: env where
  "env_bootstrap = env_empty\<lparr>MOLTBOT_GATEWAY_TOKEN := Some ''my-secret-token''\<rparr>"

definition env_dev :: env where
  "env_dev = env_bootstrap\<lparr>DEV_MODE := Some ''true''\<rparr>"

definition env_r2 :: env where
  "env_r2 = env_empty\<lparr>R2_ACCESS_KEY_ID := Some ''AKIAEXAMPLE'',
     R2_SECRET_ACCESS_KEY := Some ''s3cr3t'', CF_ACCOUNT_ID := Some ''acct42''\<rparr>"

text \<open>A request with an optional \<open>token\<close> query parameter and an optional
  \<open>X-Gateway-Token\<close> header.\<close>

definition mk_request :: "string option \<Rightarrow> string option \<Rightarrow> request" where
  "mk_request q h =
     \<lparr>searchParams = (case q of None \<Rightarrow> [] | Some v \<Rightarrow> [(''token'', v)]),
      header = (\<lambda>n. if n = ''X-Gateway-Token'' then h else None)\<rparr>"

definition reject_all :: verifier where
  "reject_all = (\<lambda>token domain aud. Inl NonError)"

definition json_options :: AccessMiddlewareOptions where
  "json_options = \<lparr>type = json, redirectOnMissing = False\<rparr>"

definition html_options :: AccessMiddlewareOptions where
  "html_options = \<lparr>type = html, redirectOnMissing = False\<rparr>"

text \<open>
  A sandbox with a file table. \<open>writeFile\<close> stores the file, \<open>rm -f\<close> of the credential
  path removes it, and every other command takes its outcome from a queue set up in
  advance (an empty queue means an empty successful result).
\<close>

record mock_state =
  files :: "(string \<times> string) list"
  queued :: "(exn + ExecResult) list"

definition exec_ok :: "string \<Rightarrow> ExecResult" where
  "exec_ok out = \<lparr>stdout = Some out, stderr = Some [], success = True, exitCode = Some 0\<rparr>"

definition exec_failed :: "string \<Rightarrow> ExecResult" where
  "exec_failed out = \<lparr>stdout = Some out, stderr = Some [], success = False, exitCode = Some 1\<rparr>"

definition mock_sandbox :: "mock_state sandbox" where
  "mock_sandbox =
     \<lparr>exec = (\<lambda>cmd t s.
         if cmd = rm_command
         then (Inr (exec_ok []), s\<lparr>files := filter (\<lambda>f. fst f \<noteq> RCLONE_TEMP_CONFIG) (files s)\<rparr>)
         else (case queued s of
                 [] \<Rightarrow> (Inr (exec_ok []), s)
               | r # rs \<Rightarrow> (r, s\<lparr>queued := rs\<rparr>))),
      writeFile = (\<lambda>path content s.
         (Inr (), s\<lparr>files := (path, content) # filter (\<lambda>f. fst f \<noteq> path) (files s)\<rparr>)),
      startProcess = (\<lambda>cmd s. (Inl (Error ''no process support''), s)),
      getLogs = (\<lambda>p s. (Inl (Error ''no process support''), s)),
      proc_exitCode = (\<lambda>p s. None),
      waitForProcess = (\<lambda>p t s. (Inl (Error ''no process support''), s)),
      ensureMoltbotGateway = (\<lambda>e s. (Inl (Error ''no process support''), s))\<rparr>"

definition mock_world :: "(exn + ExecResult) list \<Rightarrow> mock_state world" where
  "mock_world rs = \<lparr>state = \<lparr>files = [], queued = rs\<rparr>, calls = []\<rparr>"

text \<open>
  A sandbox for the pairing commands: the list process is handle 0; approving
  \<open>req-a\<close> cannot even start, approving \<open>req-b\<close> prints a success marker and exits
  with status 1, approving \<open>req-c\<close> prints no marker and exits with status 0, and any
  other approval prints an error and exits with status 1.
\<close>

definition device_sandbox :: "unit sandbox" where
  "device_sandbox =
     \<lparr>exec = (\<lambda>cmd t s. (Inr (exec_ok []), s)),
      writeFile = (\<lambda>path content s. (Inr (), s)),
      startProcess = (\<lambda>cmd s.
         if cmd = list_command [] then (Inr 0, s)
         else if cmd = approve_command ''req-a'' [] then (Inl (Error ''spawn failed''), s)
         else if cmd = approve_command ''req-b'' [] then (Inr 1, s)
         else if cmd = approve_command ''req-c'' [] then (Inr 2, s)
         else (Inr 3, s)),
      getLogs = (\<lambda>p s.
         (Inr \<lparr>logs_stdout = Some (if p = 0 then ''{}''
                                    else if p = 1 then ''Approved device req-b''
                                    else if p = 2 then ''done''
                                    else ''unknown requestId''),
               logs_stderr = Some []\<rparr>, s)),
      proc_exitCode = (\<lambda>p s. if p = 2 then Some 0 else Some 1),
      waitForProcess = (\<lambda>p t s. (Inr (), s)),
      ensureMoltbotGateway = (\<lambda>e s. (Inr (), s))\<rparr>"

definition example_pending :: "string \<Rightarrow> exn + PendingDevice list" where
  "example_pending out =
     Inr [\<lparr>requestId = ''req-a''\<rparr>, \<lparr>requestId = ''req-b''\<rparr>, \<lparr>requestId = ''req-c''\<rparr>,
          \<lparr>requestId = ''req-d''\<rparr>]"

definition none_pending :: "string \<Rightarrow> exn + PendingDevice list" where
  "none_pending out = Inr []"

definition device_world :: "unit world" where
  "device_world = \<lparr>state = (), calls = []\<rparr>"

text \<open>The same sandbox when a rejected call is reported as a failed result instead.\<close>

definition steady_sandbox :: "mock_state sandbox" where
  "steady_sandbox =
     mock_sandbox\<lparr>exec := (\<lambda>cmd t s.
        case exec mock_sandbox cmd t s of
          (Inl err, s') \<Rightarrow> (Inr (exec_failed (error_message err)), s')
        | (Inr r, s') \<Rightarrow> (Inr r, s'))\<rparr>"

text \<open>Outcomes for a sync run: the config file is found, the config sync succeeds, the
  workspace directory exists, and its transfer call is rejected.\<close>

definition timeout_queue :: "(exn + ExecResult) list" where
  "timeout_queue =
     [Inr (exec_ok ''openclaw\<newline>''), Inr (exec_ok []), Inr (exec_ok ''yes\<newline>''),
      Inl (Error ''exec timed out'')]"

text \<open>Outcomes for a sync run in which the workspace transfer reports failure, there is
  no skills directory, and the marker reads back a timestamp.\<close>

definition partial_queue :: "(exn + ExecResult) list" where
  "partial_queue =
     [Inr (exec_ok ''openclaw\<newline>''), Inr (exec_ok []), Inr (exec_ok ''yes\<newline>''),
      Inr (exec_failed ''Failed to copy''), Inr (exec_ok []), Inr (exec_ok []),
      Inr (exec_ok ''2026-01-01T00:00:00+00:00\<newline>'')]"

section \<open>Properties of the access middleware\<close>

lemmas middleware_defs = createAccessMiddleware_def hasAccess_def isBootstrapMode_def Let_def
  extractGatewayToken_def or_js_def truthy_def searchParams_get_def

lemmas example_defs = mk_request_def env_bootstrap_def env_dev_def env_empty_def
  json_options_def html_options_def isDevMode_def isE2ETestMode_def getGatewayToken_def

text \<open>
  C4. With dev mode and E2E mode off, no issuer (team domain and audience are not both
  set) and no gateway token, the middleware answers with the "not configured" body and
  status 500: it never answers 401 and never calls the protected handler.
\<close>

theorem not_configured_is_500:
  assumes "\<not> isDevMode e" and "\<not> isE2ETestMode e"
    and "\<not> hasAccess e" and "\<not> truthy (getGatewayToken e)"
  shows "createAccessMiddleware v opts e c =
           Respond (if type opts = json then Json not_configured_json 500
                    else Html not_configured_html 500)
         \<and> (\<exists>r. createAccessMiddleware v opts e c = Respond r \<and> status_of r = 500)
         \<and> (\<forall>r. createAccessMiddleware v opts e c = Respond r \<longrightarrow> status_of r \<noteq> 401)
         \<and> (\<forall>u. createAccessMiddleware v opts e c \<noteq> Next u)"
  using assms
  by (auto simp add: createAccessMiddleware_def hasAccess_def isBootstrapMode_def Let_def)

theorem not_configured_is_500_witness:
  "\<not> isDevMode env_empty \<and> \<not> isE2ETestMode env_empty \<and> \<not> hasAccess env_empty \<and>
   \<not> truthy (getGatewayToken env_empty) \<and>
   createAccessMiddleware reject_all html_options env_empty (mk_request None (Some ''x'')) =
     Respond (Html not_configured_html 500)"
proof -
  have h: "\<not> isDevMode env_empty" "\<not> isE2ETestMode env_empty" "\<not> hasAccess env_empty"
    "\<not> truthy (getGatewayToken env_empty)"
    by (simp_all add: isDevMode_def isE2ETestMode_def hasAccess_def truthy_def
        getGatewayToken_def env_empty_def)
  from h not_configured_is_500 [OF h, of reject_all html_options "mk_request None (Some ''x'')"]
  show ?thesis by (simp add: html_options_def)
qed



text \<open>
  C6. When \<open>DEV_MODE\<close> or \<open>E2E_TEST_MODE\<close> is \<open>'true'\<close> the middleware calls the handler
  with email \<open>dev@localhost\<close> and name \<open>Dev User\<close>, whatever the rest of the
  configuration, the options and the request are.
\<close>

theorem dev_mode_allows:
  assumes "isDevMode e \<or> isE2ETestMode e"
  shows "createAccessMiddleware v opts e c =
           Next \<lparr>email = Some ''dev@localhost'', name = Some ''Dev User''\<rparr>"
  using assms by (simp add: createAccessMiddleware_def dev_user_def)

theorem dev_mode_allows_witness:
  "(isDevMode env_dev \<or> isE2ETestMode env_dev) \<and>
   createAccessMiddleware reject_all json_options env_dev (mk_request (Some ''wrong'') None) =
     Next \<lparr>email = Some ''dev@localhost'', name = Some ''Dev User''\<rparr>"
proof -
  have h: "isDevMode env_dev \<or> isE2ETestMode env_dev"
    by (simp add: isDevMode_def env_dev_def)
  from h dev_mode_allows [OF h] show ?thesis by simp
qed

text \<open>
  C7, as stated, fails: two bootstrap-mode requests carry the same (empty) \<open>token\<close>
  query parameter and different \<open>X-Gateway-Token\<close> headers, each different from the query
  value, and get different answers, so the header decided.
\<close>

theorem query_token_precedence_counterexample:
  "createAccessMiddleware reject_all json_options env_bootstrap
     (mk_request (Some []) (Some ''my-secret-token'')) = Next bootstrap_user
   \<and> createAccessMiddleware reject_all json_options env_bootstrap
     (mk_request (Some []) (Some ''other-token'')) = Respond (Json bootstrap_unauthorized_json 401)"
  by (simp add: middleware_defs example_defs)

text \<open>
  C7, amended. In bootstrap mode, when the \<open>token\<close> query parameter is present and not
  empty, its value is the extracted token and the answer does not depend on the headers:
  any request with the same query parameters gets the same answer.
\<close>

theorem query_token_precedence:
  assumes "\<not> isDevMode e" and "\<not> isE2ETestMode e" and "isBootstrapMode e"
    and "searchParams_get c ''token'' = Some q" and "q \<noteq> []"
    and "searchParams c' = searchParams c"
  shows "extractGatewayToken c = Some q \<and>
         createAccessMiddleware v opts e c' = createAccessMiddleware v opts e c"
  using assms
  by (auto simp add: middleware_defs split: option.splits)

theorem query_token_precedence_witness:
  "\<not> isDevMode env_bootstrap \<and> \<not> isE2ETestMode env_bootstrap \<and> isBootstrapMode env_bootstrap
   \<and> searchParams_get (mk_request (Some ''wrong-token'') (Some ''my-secret-token'')) ''token''
       = Some ''wrong-token''
   \<and> extractGatewayToken (mk_request (Some ''wrong-token'') (Some ''my-secret-token''))
       = Some ''wrong-token''
   \<and> createAccessMiddleware reject_all json_options env_bootstrap
        (mk_request (Some ''wrong-token'') None) =
      createAccessMiddleware reject_all json_options env_bootstrap
        (mk_request (Some ''wrong-token'') (Some ''my-secret-token''))"
proof -
  have h: "\<not> isDevMode env_bootstrap" "\<not> isE2ETestMode env_bootstrap"
    "isBootstrapMode env_bootstrap"
    by (simp_all add: isBootstrapMode_def hasAccess_def truthy_def example_defs)
  have q: "searchParams_get (mk_request (Some ''wrong-token'') (Some ''my-secret-token'')) ''token''
       = Some ''wrong-token''" "''wrong-token'' \<noteq> []"
    "searchParams (mk_request (Some ''wrong-token'') None) =
     searchParams (mk_request (Some ''wrong-token'') (Some ''my-secret-token''))"
    by (simp_all add: searchParams_get_def mk_request_def)
  from h q query_token_precedence [OF h q, of reject_all json_options]
  show ?thesis by simp
qed

text \<open>
  C10. An empty \<open>token\<close> query parameter does not shadow the header: the extracted token
  is then the non-empty header value, or null. In bootstrap mode such a request with the
  right header token is let through, and a request with no non-empty query token and no
  header token extracts null and gets 401.
\<close>

theorem empty_query_token_falls_back:
  "(searchParams_get c ''token'' = Some [] \<longrightarrow>
      extractGatewayToken c =
        (if truthy (header c ''X-Gateway-Token'') then header c ''X-Gateway-Token'' else None))
   \<and> (\<not> isDevMode e \<and> \<not> isE2ETestMode e \<and> isBootstrapMode e \<and>
       searchParams_get c ''token'' = Some [] \<and> header c ''X-Gateway-Token'' = getGatewayToken e \<longrightarrow>
      createAccessMiddleware v opts e c = Next bootstrap_user)
   \<and> (\<not> truthy (searchParams_get c ''token'') \<and> header c ''X-Gateway-Token'' = None \<longrightarrow>
      extractGatewayToken c = None \<and>
      (\<not> isDevMode e \<and> \<not> isE2ETestMode e \<and> isBootstrapMode e \<longrightarrow>
         createAccessMiddleware v opts e c =
           Respond (if type opts = json then Json bootstrap_unauthorized_json 401
                    else Html bootstrap_unauthorized_html 401)))"
  by (auto simp add: middleware_defs split: option.splits)

theorem empty_query_token_falls_back_witness:
  "searchParams_get (mk_request (Some []) (Some ''my-secret-token'')) ''token'' = Some []
   \<and> extractGatewayToken (mk_request (Some []) (Some ''my-secret-token'')) = Some ''my-secret-token''
   \<and> createAccessMiddleware reject_all json_options env_bootstrap
        (mk_request (Some []) (Some ''my-secret-token'')) = Next bootstrap_user
   \<and> extractGatewayToken (mk_request (Some []) None) = None
   \<and> createAccessMiddleware reject_all json_options env_bootstrap
        (mk_request (Some []) None) = Respond (Json bootstrap_unauthorized_json 401)"
proof -
  have h: "\<not> isDevMode env_bootstrap" "\<not> isE2ETestMode env_bootstrap"
    "isBootstrapMode env_bootstrap"
    by (simp_all add: isBootstrapMode_def hasAccess_def truthy_def example_defs)
  have a: "searchParams_get (mk_request (Some []) (Some ''my-secret-token'')) ''token'' = Some []"
    "header (mk_request (Some []) (Some ''my-secret-token'')) ''X-Gateway-Token'' =
       getGatewayToken env_bootstrap"
    "truthy (header (mk_request (Some []) (Some ''my-secret-token'')) ''X-Gateway-Token'')"
    "header (mk_request (Some []) (Some ''my-secret-token'')) ''X-Gateway-Token'' =
       Some ''my-secret-token''"
    by (simp_all add: searchParams_get_def truthy_def example_defs)
  have b: "\<not> truthy (searchParams_get (mk_request (Some []) None) ''token'')"
    "header (mk_request (Some []) None) ''X-Gateway-Token'' = None"
    by (simp_all add: searchParams_get_def truthy_def example_defs)
  from h a b
    empty_query_token_falls_back [of "mk_request (Some []) (Some ''my-secret-token'')"
      env_bootstrap reject_all json_options]
    empty_query_token_falls_back [of "mk_request (Some []) None"
      env_bootstrap reject_all json_options]
  show ?thesis by (simp add: json_options_def)
qed

text \<open>
  A request that carries the token in the \<open>X-Gateway-Token\<close> header only, with no
  \<open>token\<close> query parameter at all, is treated like one with an empty parameter: the
  extracted token is the non-empty header value, or null, and in bootstrap mode the
  right header token lets the request through.
\<close>

lemma header_only_token:
  assumes "searchParams_get c ''token'' = None"
  shows "extractGatewayToken c =
           (if truthy (header c ''X-Gateway-Token'') then header c ''X-Gateway-Token'' else None)"
    and "\<not> isDevMode e \<and> \<not> isE2ETestMode e \<and> isBootstrapMode e \<and>
         header c ''X-Gateway-Token'' = getGatewayToken e \<longrightarrow>
           createAccessMiddleware v opts e c = Next bootstrap_user"
  using assms by (auto simp add: middleware_defs split: option.splits)

lemma header_only_token_example:
  "searchParams_get (mk_request None (Some ''my-secret-token'')) ''token'' = None
   \<and> extractGatewayToken (mk_request None (Some ''my-secret-token'')) = Some ''my-secret-token''
   \<and> createAccessMiddleware reject_all json_options env_bootstrap
        (mk_request None (Some ''my-secret-token'')) = Next bootstrap_user"
proof -
  let ?c = "mk_request None (Some ''my-secret-token'')"
  have q: "searchParams_get ?c ''token'' = None"
    by (simp add: searchParams_get_def mk_request_def)
  have t: "header ?c ''X-Gateway-Token'' = Some ''my-secret-token''"
    "truthy (header ?c ''X-Gateway-Token'')"
    by (simp_all add: truthy_def mk_request_def)
  have h: "\<not> isDevMode env_bootstrap \<and> \<not> isE2ETestMode env_bootstrap \<and> isBootstrapMode env_bootstrap \<and>
         header ?c ''X-Gateway-Token'' = getGatewayToken env_bootstrap"
    by (simp add: isBootstrapMode_def hasAccess_def truthy_def example_defs)
  from header_only_token(1) [OF q] t
  have x: "extractGatewayToken ?c = Some ''my-secret-token''"
    by simp
  from header_only_token(2) [OF q, of env_bootstrap reject_all json_options] h
  have y: "createAccessMiddleware reject_all json_options env_bootstrap ?c = Next bootstrap_user"
    by blast
  from q x y show ?thesis by blast
qed

section \<open>Facts about the sandbox calls\<close>

lemma io_bind_Inr: "m w = (Inr x, w') \<Longrightarrow> io_bind m f w = f x w'"
  by (simp add: io_bind_def)

lemma io_bind_InrI: "m w = (Inr x, w') \<Longrightarrow> f x w' = r \<Longrightarrow> io_bind m f w = r"
  by (simp add: io_bind_def)

lemma pair_fst_snd: "fst p = a \<Longrightarrow> p = (a, snd p)"
  by (cases p) simp

lemma rm_not_rclone: "rclone_command c \<noteq> rm_command"
  by (simp add: rclone_command_def rm_command_def)

lemma not_rm:
  "detect_command \<noteq> rm_command"
  "''test -d /root/clawd && echo yes'' \<noteq> rm_command"
  "''test -d /root/clawd/skills && echo yes'' \<noteq> rm_command"
  "''date -Iseconds > '' @ LAST_SYNC_FILE \<noteq> rm_command"
  "''cat '' @ LAST_SYNC_FILE \<noteq> rm_command"
  by (simp_all add: rm_command_def detect_command_def)

lemma not_rm_cons: "c \<noteq> CHR ''r'' \<Longrightarrow> c # rest \<noteq> rm_command"
  by (simp add: rm_command_def)


lemma hasR2Config_trimmed:
  "hasR2Config e \<Longrightarrow> trimmed (R2_ACCESS_KEY_ID e) \<noteq> [] \<and> trimmed (R2_SECRET_ACCESS_KEY e) \<noteq> []
     \<and> trimmed (CF_ACCOUNT_ID e) \<noteq> []"
  by (auto simp add: hasR2Config_def trimmed_def truthy_def or_empty_def split: option.splits)


text \<open>With the three secrets set, the transfer function is the straight line
  write, transfer, remove.\<close>

lemma runRclone_configured:
  assumes "hasR2Config e"
  shows "runRcloneWithFreshConfig sb e command timeout =
        io_bind (sandbox_writeFile sb RCLONE_TEMP_CONFIG (fresh_config e)) (\<lambda>_.
        io_bind (sandbox_exec sb (rclone_command command)
                   (Some (case timeout of Some t \<Rightarrow> t | None \<Rightarrow> 15000))) (\<lambda>result.
        io_bind (sandbox_exec sb rm_command None) (\<lambda>_.
        io_return (rclone_result result))))"
  using hasR2Config_trimmed [OF assms]
  by (simp add: runRcloneWithFreshConfig_def Let_def fresh_config_def)


subsection \<open>Sandboxes that always resolve\<close>

lemma sandbox_exec_returns:
  assumes "never_throws sb"
  shows "\<exists>r s'. exec sb cmd t (state w) = (Inr r, s') \<and>
           sandbox_exec sb cmd t w = (Inr r, \<lparr>state = s', calls = calls w @ [Exec cmd t]\<rparr>)"
proof -
  from assms obtain r s' where "exec sb cmd t (state w) = (Inr r, s')"
    unfolding never_throws_def by blast
  then show ?thesis
    by (auto simp add: sandbox_exec_def record_call_def)
qed

lemma sandbox_writeFile_returns:
  assumes "never_throws sb"
  shows "\<exists>w'. sandbox_writeFile sb path content w = (Inr (), w')"
proof -
  from assms obtain s' where "writeFile sb path content (state w) = (Inr (), s')"
    unfolding never_throws_def by blast
  then show ?thesis
    by (simp add: sandbox_writeFile_def)
qed

lemma runRclone_returns:
  assumes "never_throws sb"
  shows "\<exists>r w'. runRcloneWithFreshConfig sb e command timeout w = (Inr r, w')"
proof (cases "trimmed (R2_ACCESS_KEY_ID e) = [] \<or> trimmed (R2_SECRET_ACCESS_KEY e) = []
     \<or> trimmed (CF_ACCOUNT_ID e) = []")
  case True
  then show ?thesis
    by (auto simp add: runRcloneWithFreshConfig_def Let_def io_return_def)
next
  case False
  obtain w1 where a: "sandbox_writeFile sb RCLONE_TEMP_CONFIG (buildRcloneConfigContent
      (trimmed (R2_ACCESS_KEY_ID e)) (trimmed (R2_SECRET_ACCESS_KEY e)) (trimmed (CF_ACCOUNT_ID e))) w
      = (Inr (), w1)"
    using sandbox_writeFile_returns [OF assms] by blast
  obtain r w2 where b: "sandbox_exec sb (rclone_command command)
      (Some (case timeout of Some t \<Rightarrow> t | None \<Rightarrow> 15000)) w1 = (Inr r, w2)"
    using sandbox_exec_returns [OF assms] by blast
  obtain r' w3 where c: "sandbox_exec sb rm_command None w2 = (Inr r', w3)"
    using sandbox_exec_returns [OF assms] by blast
  have "runRcloneWithFreshConfig sb e command timeout w = (Inr (rclone_result r), w3)"
    using False unfolding runRcloneWithFreshConfig_def Let_def
    apply (simp only: if_False)
    apply (rule io_bind_InrI, rule a)
    apply (rule io_bind_InrI, rule b)
    apply (rule io_bind_InrI, rule c)
    apply (simp add: io_return_def)
    done
  then show ?thesis by blast
qed

lemma optional_sync_returns:
  assumes "never_throws sb"
  shows "\<exists>w'. (if b then io_bind (runRcloneWithFreshConfig sb e command timeout) (\<lambda>_. io_return ())
               else io_return ()) w = (Inr (), w')"
proof (cases b)
  case True
  obtain r w' where "runRcloneWithFreshConfig sb e command timeout w = (Inr r, w')"
    using runRclone_returns [OF assms] by blast
  with True show ?thesis by (simp add: io_bind_def io_return_def)
next
  case False
  then show ?thesis by (simp add: io_return_def)
qed

lemma sync_after_config_returns:
  assumes "never_throws sb"
  shows "\<exists>(w5 :: _ world) tsResult s'. sync_after_config sb e w =
           (Inr \<lparr>sync_success = True, lastSync = map_option trim (stdout tsResult),
                 sync_error = None, details = None\<rparr>,
            \<lparr>state = s', calls = calls w5 @ [Exec (''cat '' @ LAST_SYNC_FILE) None]\<rparr>)
         \<and> exec sb (''cat '' @ LAST_SYNC_FILE) None (state w5) = (Inr tsResult, s')"
proof -
  obtain hw w1 where a: "sandbox_exec sb ''test -d /root/clawd && echo yes'' None w = (Inr hw, w1)"
    using sandbox_exec_returns [OF assms] by blast
  obtain w2 where b: "(if map_option trim (stdout hw) = Some ''yes''
              then io_bind (runRcloneWithFreshConfig sb e (workspace_sync_command e)
                              (Some SYNC_TIMEOUT)) (\<lambda>_. io_return ())
              else io_return ()) w1 = (Inr (), w2)"
    using optional_sync_returns [OF assms] by blast
  obtain hs w3 where c: "sandbox_exec sb ''test -d /root/clawd/skills && echo yes'' None w2 = (Inr hs, w3)"
    using sandbox_exec_returns [OF assms] by blast
  obtain w4 where d: "(if map_option trim (stdout hs) = Some ''yes''
              then io_bind (runRcloneWithFreshConfig sb e (skills_sync_command e)
                              (Some SYNC_TIMEOUT)) (\<lambda>_. io_return ())
              else io_return ()) w3 = (Inr (), w4)"
    using optional_sync_returns [OF assms] by blast
  obtain dr w5 where f: "sandbox_exec sb (''date -Iseconds > '' @ LAST_SYNC_FILE) None w4 = (Inr dr, w5)"
    using sandbox_exec_returns [OF assms] by blast
  obtain ts s' where g: "exec sb (''cat '' @ LAST_SYNC_FILE) None (state w5) = (Inr ts, s')"
    "sandbox_exec sb (''cat '' @ LAST_SYNC_FILE) None w5 =
       (Inr ts, \<lparr>state = s', calls = calls w5 @ [Exec (''cat '' @ LAST_SYNC_FILE) None]\<rparr>)"
    using sandbox_exec_returns [OF assms] by blast
  have "sync_after_config sb e w =
          (Inr \<lparr>sync_success = True, lastSync = map_option trim (stdout ts),
                 sync_error = None, details = None\<rparr>,
           \<lparr>state = s', calls = calls w5 @ [Exec (''cat '' @ LAST_SYNC_FILE) None]\<rparr>)"
    unfolding sync_after_config_def
    apply (rule io_bind_InrI, rule a)
    apply (rule io_bind_InrI, rule b)
    apply (rule io_bind_InrI, rule c)
    apply (rule io_bind_InrI, rule d)
    apply (rule io_bind_InrI, rule f)
    apply (rule io_bind_InrI, rule g(2))
    apply (simp add: io_return_def)
    done
  with g(1) show ?thesis
    by - (rule exI [of _ w5], rule exI [of _ ts], rule exI [of _ s'], simp)
qed

lemma sync_after_config_success:
  "sync_after_config sb e w = (Inr res, w') \<Longrightarrow> sync_success res"
  unfolding sync_after_config_def io_bind_def io_return_def
  by (auto split: prod.splits sum.splits if_splits)

lemma config_sync_details_bounded: "length (config_sync_details r) \<le> 2000"
  by (auto simp add: config_sync_details_def Let_def slice_last_def)

text \<open>The details are the end of the captured output: all of it up to 2000
  characters, its last 2000 beyond that, and a fixed sentence when there is none.\<close>

lemma slice_last_is_tail: "\<exists>p. s = p @ slice_last n s \<and> length (slice_last n s) = min n (length s)"
proof -
  have "s = take (length s - n) s @ slice_last n s"
    by (simp add: slice_last_def)
  moreover have "length (slice_last n s) = min n (length s)"
    by (auto simp add: slice_last_def)
  ultimately show ?thesis by blast
qed

lemma config_sync_details_is_tail:
  assumes "join_js ''\<newline>---\<newline>''
             (filter_Boolean [rclone_stderr r, rclone_stdout r]) = out"
  shows "(out = [] \<longrightarrow>
            config_sync_details r = ''No error output from rclone (exit code may indicate failure)'')
       \<and> (out \<noteq> [] \<longrightarrow>
            (\<exists>p. out = p @ config_sync_details r) \<and>
            length (config_sync_details r) = min 2000 (length out))"
proof (cases "out = []")
  case True
  with assms show ?thesis
    by (simp add: config_sync_details_def Let_def slice_last_def)
next
  case False
  obtain p where p: "out = p @ slice_last 2000 out"
    "length (slice_last 2000 out) = min 2000 (length out)"
    using slice_last_is_tail [of out 2000] by blast
  from False p(2) have ne: "slice_last 2000 out \<noteq> []"
    by (cases out) (auto simp add: min_def split: if_splits)
  have "config_sync_details r = slice_last 2000 out"
    using assms ne by (simp add: config_sync_details_def Let_def)
  with False p show ?thesis by metis
qed

subsection \<open>The example sandboxes, call by call\<close>

lemma env_r2_configured: "hasR2Config env_r2"
  by (simp add: hasR2Config_def env_r2_def env_empty_def truthy_def trim_def is_space_def)

lemma mock_fields:
  "writeFile mock_sandbox path content \<lparr>files = fs, queued = q\<rparr> =
     (Inr (), \<lparr>files = (path, content) # filter (\<lambda>f. fst f \<noteq> path) fs, queued = q\<rparr>)"
  "cmd \<noteq> rm_command \<Longrightarrow>
     exec mock_sandbox cmd t \<lparr>files = fs, queued = r # rs\<rparr> = (r, \<lparr>files = fs, queued = rs\<rparr>)"
  "exec mock_sandbox rm_command t \<lparr>files = fs, queued = q\<rparr> =
     (Inr (exec_ok []), \<lparr>files = filter (\<lambda>f. fst f \<noteq> RCLONE_TEMP_CONFIG) fs, queued = q\<rparr>)"
  by (simp_all add: mock_sandbox_def)

lemma mock_exec_queued:
  "cmd \<noteq> rm_command \<Longrightarrow>
   sandbox_exec mock_sandbox cmd t \<lparr>state = \<lparr>files = fs, queued = r # rs\<rparr>, calls = cs\<rparr> =
     (r, \<lparr>state = \<lparr>files = fs, queued = rs\<rparr>, calls = cs @ [Exec cmd t]\<rparr>)"
  by (simp add: sandbox_exec_def mock_fields record_call_def)

lemma mock_exec_rm:
  "sandbox_exec mock_sandbox rm_command t \<lparr>state = \<lparr>files = fs, queued = q\<rparr>, calls = cs\<rparr> =
     (Inr (exec_ok []),
      \<lparr>state = \<lparr>files = filter (\<lambda>f. fst f \<noteq> RCLONE_TEMP_CONFIG) fs, queued = q\<rparr>,
       calls = cs @ [Exec rm_command t]\<rparr>)"
  by (simp add: sandbox_exec_def mock_fields record_call_def)

lemma mock_writeFile:
  "sandbox_writeFile mock_sandbox path content \<lparr>state = \<lparr>files = fs, queued = q\<rparr>, calls = cs\<rparr> =
     (Inr (),
      \<lparr>state = \<lparr>files = (path, content) # filter (\<lambda>f. fst f \<noteq> path) fs, queued = q\<rparr>,
       calls = cs @ [WriteFile path content]\<rparr>)"
  by (simp add: sandbox_writeFile_def mock_fields record_call_def)

lemma steady_never_throws: "never_throws steady_sandbox"
  by (auto simp add: never_throws_def steady_sandbox_def mock_sandbox_def
      split: list.splits sum.splits)

lemma steady_exec_queued:
  "cmd \<noteq> rm_command \<Longrightarrow>
   sandbox_exec steady_sandbox cmd t \<lparr>state = \<lparr>files = fs, queued = Inr r # rs\<rparr>, calls = cs\<rparr> =
     (Inr r, \<lparr>state = \<lparr>files = fs, queued = rs\<rparr>, calls = cs @ [Exec cmd t]\<rparr>)"
  by (simp add: sandbox_exec_def steady_sandbox_def mock_fields record_call_def)

lemma steady_exec_rm:
  "sandbox_exec steady_sandbox rm_command t \<lparr>state = \<lparr>files = fs, queued = q\<rparr>, calls = cs\<rparr> =
     (Inr (exec_ok []),
      \<lparr>state = \<lparr>files = filter (\<lambda>f. fst f \<noteq> RCLONE_TEMP_CONFIG) fs, queued = q\<rparr>,
       calls = cs @ [Exec rm_command t]\<rparr>)"
  by (simp add: sandbox_exec_def steady_sandbox_def mock_fields record_call_def)

lemma steady_writeFile:
  "sandbox_writeFile steady_sandbox path content \<lparr>state = \<lparr>files = fs, queued = q\<rparr>, calls = cs\<rparr> =
     (Inr (),
      \<lparr>state = \<lparr>files = (path, content) # filter (\<lambda>f. fst f \<noteq> path) fs, queued = q\<rparr>,
       calls = cs @ [WriteFile path content]\<rparr>)"
  by (simp add: sandbox_writeFile_def steady_sandbox_def mock_fields record_call_def)

lemma trim_examples:
  "trim ''openclaw\<newline>'' = ''openclaw''"
  "trim ''yes\<newline>'' = ''yes''"
  "trim ''2026-01-01T00:00:00+00:00\<newline>'' = ''2026-01-01T00:00:00+00:00''"
  "trim [] = []"
  by (simp_all add: trim_def is_space_def)

lemmas mock_eval = io_bind_def io_return_def mock_exec_queued mock_exec_rm mock_writeFile
  steady_exec_queued steady_exec_rm steady_writeFile
  rm_not_rclone not_rm not_rm_cons mock_world_def exec_ok_def exec_failed_def trim_examples
  detectConfigDir_def rclone_result_def or_empty_def

section \<open>Properties of the credential file (gateway/r2.ts)\<close>

text \<open>
  C2. The claim: with the three secrets set, every run of \<open>runRcloneWithFreshConfig\<close>
  writes a fresh credential file before the transfer command and deletes it before the
  function is left, on every path, a failing transfer included. The code does not keep
  this on the path where the transfer call is rejected. For every sandbox: when the
  write resolves and the transfer call is rejected, the function is left with that
  rejection right after the transfer call, in the state that call left; its calls are
  the write and the transfer only, and no \<open>rm -f\<close> follows.
\<close>

theorem rejected_transfer_skips_cleanup:
  assumes "hasR2Config e"
    and "writeFile sb RCLONE_TEMP_CONFIG (fresh_config e) (state w) = (Inr (), s1)"
    and "exec sb (rclone_command command) (Some (case timeout of Some t \<Rightarrow> t | None \<Rightarrow> 15000)) s1
           = (Inl err, s2)"
  shows "runRcloneWithFreshConfig sb e command timeout w =
           (Inl err,
            \<lparr>state = s2,
             calls = calls w @
               [WriteFile RCLONE_TEMP_CONFIG (fresh_config e),
                Exec (rclone_command command)
                  (Some (case timeout of Some t \<Rightarrow> t | None \<Rightarrow> 15000))]\<rparr>)"
  using assms(2,3)
  by (simp add: runRclone_configured [OF assms(1)] io_bind_def
      sandbox_writeFile_def sandbox_exec_def record_call_def)

text \<open>
  Run on a sandbox whose \<open>exec\<close> times out on the transfer command: the function is
  left with the timeout, its calls are the write and the transfer, and the credential
  file is still in the sandbox afterwards.
\<close>

theorem rejected_transfer_skips_cleanup_witness:
  "hasR2Config env_r2
   \<and> writeFile mock_sandbox RCLONE_TEMP_CONFIG (fresh_config env_r2)
        (state (mock_world [Inl (Error ''exec timed out'')])) =
       (Inr (), \<lparr>files = [(RCLONE_TEMP_CONFIG, fresh_config env_r2)],
                 queued = [Inl (Error ''exec timed out'')]\<rparr>)
   \<and> exec mock_sandbox (rclone_command ''size r2:clawworker-data/'') (Some 15000)
        \<lparr>files = [(RCLONE_TEMP_CONFIG, fresh_config env_r2)],
         queued = [Inl (Error ''exec timed out'')]\<rparr> =
       (Inl (Error ''exec timed out''),
        \<lparr>files = [(RCLONE_TEMP_CONFIG, fresh_config env_r2)], queued = []\<rparr>)
   \<and> runRcloneWithFreshConfig mock_sandbox env_r2 ''size r2:clawworker-data/'' None
        (mock_world [Inl (Error ''exec timed out'')]) =
       (Inl (Error ''exec timed out''),
        \<lparr>state = \<lparr>files = [(RCLONE_TEMP_CONFIG, fresh_config env_r2)], queued = []\<rparr>,
         calls = [WriteFile RCLONE_TEMP_CONFIG (fresh_config env_r2),
                  Exec (rclone_command ''size r2:clawworker-data/'') (Some 15000)]\<rparr>)
   \<and> map_of (files (state (snd (runRcloneWithFreshConfig mock_sandbox env_r2
          ''size r2:clawworker-data/'' None (mock_world [Inl (Error ''exec timed out'')])))))
        RCLONE_TEMP_CONFIG = Some (fresh_config env_r2)"
proof -
  let ?w = "mock_world [Inl (Error ''exec timed out'')]"
  have a: "writeFile mock_sandbox RCLONE_TEMP_CONFIG (fresh_config env_r2) (state ?w) =
       (Inr (), \<lparr>files = [(RCLONE_TEMP_CONFIG, fresh_config env_r2)],
                 queued = [Inl (Error ''exec timed out'')]\<rparr>)"
    by (simp add: mock_world_def mock_fields)
  have b: "exec mock_sandbox (rclone_command ''size r2:clawworker-data/'')
             (Some (case None of Some t \<Rightarrow> t | None \<Rightarrow> 15000))
        \<lparr>files = [(RCLONE_TEMP_CONFIG, fresh_config env_r2)],
         queued = [Inl (Error ''exec timed out'')]\<rparr> =
       (Inl (Error ''exec timed out''),
        \<lparr>files = [(RCLONE_TEMP_CONFIG, fresh_config env_r2)], queued = []\<rparr>)"
    by (simp add: mock_fields rm_not_rclone)
  have c: "calls ?w = []"
    by (simp add: mock_world_def)
  from env_r2_configured a b c rejected_transfer_skips_cleanup [OF env_r2_configured a b]
  show ?thesis by simp
qed

text \<open>
  On the paths where the transfer call resolves, with a result that reports success or
  failure alike, the cleanup is there: the file is written with the content built from
  the current environment, the transfer runs, and \<open>rm -f\<close> of the file is the next call,
  before the function returns the transfer's result.
\<close>

lemma fresh_config_written_then_removed:
  assumes "hasR2Config e"
    and "writeFile sb RCLONE_TEMP_CONFIG (fresh_config e) (state w) = (Inr (), s1)"
    and "exec sb (rclone_command command) (Some (case timeout of Some t \<Rightarrow> t | None \<Rightarrow> 15000)) s1
           = (Inr result, s2)"
  shows "calls_since w (snd (runRcloneWithFreshConfig sb e command timeout w)) =
           [WriteFile RCLONE_TEMP_CONFIG (fresh_config e),
            Exec (rclone_command command) (Some (case timeout of Some t \<Rightarrow> t | None \<Rightarrow> 15000)),
            Exec rm_command None]
       \<and> (\<forall>res w'. runRcloneWithFreshConfig sb e command timeout w = (Inr res, w') \<longrightarrow>
             res = rclone_result result)"
  using assms(2,3)
  by (auto simp add: runRclone_configured [OF assms(1)] io_bind_def io_return_def
      sandbox_writeFile_def sandbox_exec_def record_call_def calls_since_def
      split: prod.splits sum.splits)

lemma fresh_config_written_then_removed_example:
  "hasR2Config env_r2
   \<and> writeFile mock_sandbox RCLONE_TEMP_CONFIG (fresh_config env_r2)
        (state (mock_world [Inr (exec_failed ''connection refused'')])) =
       (Inr (), \<lparr>files = [(RCLONE_TEMP_CONFIG, fresh_config env_r2)],
                 queued = [Inr (exec_failed ''connection refused'')]\<rparr>)
   \<and> exec mock_sandbox (rclone_command ''size r2:clawworker-data/'') (Some 15000)
        \<lparr>files = [(RCLONE_TEMP_CONFIG, fresh_config env_r2)],
         queued = [Inr (exec_failed ''connection refused'')]\<rparr> =
       (Inr (exec_failed ''connection refused''),
        \<lparr>files = [(RCLONE_TEMP_CONFIG, fresh_config env_r2)], queued = []\<rparr>)
   \<and> \<not> success (exec_failed ''connection refused'')
   \<and> calls_since (mock_world [Inr (exec_failed ''connection refused'')])
        (snd (runRcloneWithFreshConfig mock_sandbox env_r2 ''size r2:clawworker-data/'' None
                (mock_world [Inr (exec_failed ''connection refused'')]))) =
       [WriteFile RCLONE_TEMP_CONFIG (fresh_config env_r2),
        Exec (rclone_command ''size r2:clawworker-data/'') (Some 15000),
        Exec rm_command None]
   \<and> files (state (snd (runRcloneWithFreshConfig mock_sandbox env_r2 ''size r2:clawworker-data/''
                None (mock_world [Inr (exec_failed ''connection refused'')])))) = []"
proof -
  let ?w = "mock_world [Inr (exec_failed ''connection refused'')]"
  have a: "writeFile mock_sandbox RCLONE_TEMP_CONFIG (fresh_config env_r2) (state ?w) =
       (Inr (), \<lparr>files = [(RCLONE_TEMP_CONFIG, fresh_config env_r2)],
                 queued = [Inr (exec_failed ''connection refused'')]\<rparr>)"
    by (simp add: mock_world_def mock_fields)
  have b: "exec mock_sandbox (rclone_command ''size r2:clawworker-data/'')
             (Some (case None of Some t \<Rightarrow> t | None \<Rightarrow> 15000))
        \<lparr>files = [(RCLONE_TEMP_CONFIG, fresh_config env_r2)],
         queued = [Inr (exec_failed ''connection refused'')]\<rparr> =
       (Inr (exec_failed ''connection refused''),
        \<lparr>files = [(RCLONE_TEMP_CONFIG, fresh_config env_r2)], queued = []\<rparr>)"
    by (simp add: mock_fields rm_not_rclone)
  have c: "\<not> success (exec_failed ''connection refused'')"
    by (simp add: exec_failed_def)
  have d: "files (state (snd (runRcloneWithFreshConfig mock_sandbox env_r2
             ''size r2:clawworker-data/'' None ?w))) = []"
    by (simp add: runRclone_configured [OF env_r2_configured] mock_eval)
  from env_r2_configured a b c d fresh_config_written_then_removed [OF env_r2_configured a b]
  show ?thesis by simp
qed

section \<open>Properties of the sync to R2 (gateway/sync.ts)\<close>

text \<open>
  C1. The claim: with the three secrets set and a config directory found, \<open>syncToR2\<close>
  returns \<open>success: true\<close> with a \<open>lastSync\<close> timestamp exactly when the config sync
  succeeds; failures of the workspace and skills syncs that follow are swallowed. The
  code does not keep this when a sandbox call of those later steps is rejected, although
  the source marks the steps as non-fatal. For every sandbox: after a successful config
  sync, when the workspace directory exists and the workspace sync is rejected,
  \<open>syncToR2\<close> is left with that rejection, right after the rejected call, and returns no
  \<open>success: true\<close>.
\<close>

theorem rejected_workspace_sync_propagates:
  assumes "hasR2Config e"
    and "detectConfigDir sb w = (Inr (Some dir), w1)"
    and "runRcloneWithFreshConfig sb e (config_sync_command e dir) (Some SYNC_TIMEOUT) w1
           = (Inr configResult, w2)"
    and "rclone_success configResult"
    and "sandbox_exec sb ''test -d /root/clawd && echo yes'' None w2 = (Inr hasWorkspace, w3)"
    and "map_option trim (stdout hasWorkspace) = Some ''yes''"
    and "runRcloneWithFreshConfig sb e (workspace_sync_command e) (Some SYNC_TIMEOUT) w3
           = (Inl err, w4)"
  shows "syncToR2 sb e w = (Inl err, w4)"
proof -
  have "sync_after_config sb e w2 = (Inl err, w4)"
    using assms(5,6,7) by (simp add: sync_after_config_def io_bind_def)
  then show ?thesis
    using assms(1,4)
    by (simp add: syncToR2_def io_bind_Inr [of "detectConfigDir sb" w, OF assms(2)]
        io_bind_Inr [of "runRcloneWithFreshConfig sb e (config_sync_command e dir) (Some SYNC_TIMEOUT)" w1,
          OF assms(3)])
qed

text \<open>
  Run on a sandbox where the config file is found, the config sync succeeds, the
  workspace directory exists and the transfer call of the workspace sync times out:
  \<open>syncToR2\<close> is left with the timeout.
\<close>

theorem rejected_workspace_sync_propagates_witness:
  "hasR2Config env_r2
   \<and> fst (detectConfigDir mock_sandbox (mock_world timeout_queue)) = Inr (Some ''/root/.openclaw'')
   \<and> fst (runRcloneWithFreshConfig mock_sandbox env_r2
            (config_sync_command env_r2 ''/root/.openclaw'') (Some SYNC_TIMEOUT)
            (snd (detectConfigDir mock_sandbox (mock_world timeout_queue))))
       = Inr (rclone_result (exec_ok []))
   \<and> rclone_success (rclone_result (exec_ok []))
   \<and> fst (sandbox_exec mock_sandbox ''test -d /root/clawd && echo yes'' None
            (snd (runRcloneWithFreshConfig mock_sandbox env_r2
                    (config_sync_command env_r2 ''/root/.openclaw'') (Some SYNC_TIMEOUT)
                    (snd (detectConfigDir mock_sandbox (mock_world timeout_queue))))))
       = Inr (exec_ok ''yes\<newline>'')
   \<and> map_option trim (stdout (exec_ok ''yes\<newline>'')) = Some ''yes''
   \<and> fst (runRcloneWithFreshConfig mock_sandbox env_r2 (workspace_sync_command env_r2)
            (Some SYNC_TIMEOUT)
            (snd (sandbox_exec mock_sandbox ''test -d /root/clawd && echo yes'' None
               (snd (runRcloneWithFreshConfig mock_sandbox env_r2
                       (config_sync_command env_r2 ''/root/.openclaw'') (Some SYNC_TIMEOUT)
                       (snd (detectConfigDir mock_sandbox (mock_world timeout_queue))))))))
       = Inl (Error ''exec timed out'')
   \<and> fst (syncToR2 mock_sandbox env_r2 (mock_world timeout_queue)) = Inl (Error ''exec timed out'')"
proof -
  let ?d = "detectConfigDir mock_sandbox (mock_world timeout_queue)"
  let ?c = "runRcloneWithFreshConfig mock_sandbox env_r2
              (config_sync_command env_r2 ''/root/.openclaw'') (Some SYNC_TIMEOUT) (snd ?d)"
  let ?h = "sandbox_exec mock_sandbox ''test -d /root/clawd && echo yes'' None (snd ?c)"
  let ?r = "runRcloneWithFreshConfig mock_sandbox env_r2 (workspace_sync_command env_r2)
              (Some SYNC_TIMEOUT) (snd ?h)"
  have d: "fst ?d = Inr (Some ''/root/.openclaw'')"
    by (simp add: timeout_queue_def mock_eval)
  have c: "fst ?c = Inr (rclone_result (exec_ok []))"
    by (simp add: runRclone_configured [OF env_r2_configured] timeout_queue_def mock_eval)
  have ok: "rclone_success (rclone_result (exec_ok []))"
    by (simp add: rclone_result_def exec_ok_def)
  have h: "fst ?h = Inr (exec_ok ''yes\<newline>'')"
    by (simp add: runRclone_configured [OF env_r2_configured] timeout_queue_def mock_eval)
  have y: "map_option trim (stdout (exec_ok ''yes\<newline>'')) = Some ''yes''"
    by (simp add: exec_ok_def trim_examples)
  have r: "fst ?r = Inl (Error ''exec timed out'')"
    by (simp add: runRclone_configured [OF env_r2_configured] timeout_queue_def mock_eval)
  from rejected_workspace_sync_propagates [OF env_r2_configured pair_fst_snd [OF d]
      pair_fst_snd [OF c] ok pair_fst_snd [OF h] y pair_fst_snd [OF r]]
  have "fst (syncToR2 mock_sandbox env_r2 (mock_world timeout_queue)) = Inl (Error ''exec timed out'')"
    by simp
  with env_r2_configured d c ok h y r show ?thesis by blast
qed

text \<open>
  What the code does keep. With the three secrets set and a config directory found, let
  the config sync return \<open>configResult\<close>. If it reports failure, \<open>syncToR2\<close> returns at once
  (no further sandbox call) with \<open>success: false\<close>, error \<open>Config sync failed\<close> and as
  details the end of the captured output: all of it up to 2000 characters, its last
  2000 beyond that. Whenever
  \<open>syncToR2\<close> returns a result, its \<open>success\<close> equals that of the config sync, whatever
  the workspace and skills syncs reported. And if the config sync succeeded and the
  sandbox calls all resolve, \<open>syncToR2\<close> returns \<open>success: true\<close> with \<open>lastSync\<close> the
  trimmed output of its last call, the read of the marker file.
\<close>

lemma syncToR2_config_gate:
  assumes "hasR2Config e"
    and "detectConfigDir sb w = (Inr (Some dir), w1)"
    and "runRcloneWithFreshConfig sb e (config_sync_command e dir) (Some SYNC_TIMEOUT) w1
           = (Inr configResult, w2)"
  shows "(\<not> rclone_success configResult \<longrightarrow>
            syncToR2 sb e w =
              (Inr \<lparr>sync_success = False, lastSync = None, sync_error = Some ''Config sync failed'',
                    details = Some (config_sync_details configResult)\<rparr>, w2)
            \<and> length (config_sync_details configResult) \<le> 2000
            \<and> (join_js ''\<newline>---\<newline>''
                  (filter_Boolean [rclone_stderr configResult, rclone_stdout configResult]) \<noteq> [] \<longrightarrow>
                 (\<exists>p. join_js ''\<newline>---\<newline>''
                        (filter_Boolean [rclone_stderr configResult, rclone_stdout configResult]) =
                      p @ config_sync_details configResult)
                 \<and> length (config_sync_details configResult) =
                    min 2000 (length (join_js ''\<newline>---\<newline>''
                        (filter_Boolean [rclone_stderr configResult, rclone_stdout configResult])))))
       \<and> (\<forall>res w'. syncToR2 sb e w = (Inr res, w') \<longrightarrow>
            sync_success res = rclone_success configResult)
       \<and> (rclone_success configResult \<and> never_throws sb \<longrightarrow>
            (\<exists>(w5 :: _ world) tsResult s'. syncToR2 sb e w =
               (Inr \<lparr>sync_success = True, lastSync = map_option trim (stdout tsResult),
                     sync_error = None, details = None\<rparr>,
                \<lparr>state = s', calls = calls w5 @ [Exec (''cat '' @ LAST_SYNC_FILE) None]\<rparr>)
             \<and> exec sb (''cat '' @ LAST_SYNC_FILE) None (state w5) = (Inr tsResult, s')))"
proof -
  have eq: "syncToR2 sb e w =
      (if \<not> rclone_success configResult then
         (Inr \<lparr>sync_success = False, lastSync = None, sync_error = Some ''Config sync failed'',
               details = Some (config_sync_details configResult)\<rparr>, w2)
       else sync_after_config sb e w2)"
    using assms(1)
    by (simp add: syncToR2_def io_bind_Inr [of "detectConfigDir sb" w, OF assms(2)]
        io_bind_Inr [of "runRcloneWithFreshConfig sb e (config_sync_command e dir) (Some SYNC_TIMEOUT)" w1,
          OF assms(3)] io_return_def)
  have tail: "join_js ''\<newline>---\<newline>''
                  (filter_Boolean [rclone_stderr configResult, rclone_stdout configResult]) \<noteq> [] \<longrightarrow>
                 (\<exists>p. join_js ''\<newline>---\<newline>''
                        (filter_Boolean [rclone_stderr configResult, rclone_stdout configResult]) =
                      p @ config_sync_details configResult)
                 \<and> length (config_sync_details configResult) =
                    min 2000 (length (join_js ''\<newline>---\<newline>''
                        (filter_Boolean [rclone_stderr configResult, rclone_stdout configResult])))"
    using config_sync_details_is_tail [OF refl, of configResult] by blast
  have fatal: "\<not> rclone_success configResult \<Longrightarrow>
            syncToR2 sb e w =
              (Inr \<lparr>sync_success = False, lastSync = None, sync_error = Some ''Config sync failed'',
                    details = Some (config_sync_details configResult)\<rparr>, w2)"
    by (simp add: eq)
  have same: "\<forall>res w'. syncToR2 sb e w = (Inr res, w') \<longrightarrow>
            sync_success res = rclone_success configResult"
    using sync_after_config_success [of sb e w2] by (auto simp add: eq)
  have fin: "rclone_success configResult \<and> never_throws sb \<longrightarrow>
            (\<exists>(w5 :: _ world) tsResult s'. syncToR2 sb e w =
               (Inr \<lparr>sync_success = True, lastSync = map_option trim (stdout tsResult),
                     sync_error = None, details = None\<rparr>,
                \<lparr>state = s', calls = calls w5 @ [Exec (''cat '' @ LAST_SYNC_FILE) None]\<rparr>)
             \<and> exec sb (''cat '' @ LAST_SYNC_FILE) None (state w5) = (Inr tsResult, s'))"
  proof (intro impI)
    assume a: "rclone_success configResult \<and> never_throws sb"
    then have nt: "never_throws sb" and ok: "rclone_success configResult"
      by simp_all
    from ok have "syncToR2 sb e w = sync_after_config sb e w2"
      by (simp add: eq)
    with sync_after_config_returns [OF nt, of e w2]
    show "\<exists>(w5 :: _ world) tsResult s'. syncToR2 sb e w =
               (Inr \<lparr>sync_success = True, lastSync = map_option trim (stdout tsResult),
                     sync_error = None, details = None\<rparr>,
                \<lparr>state = s', calls = calls w5 @ [Exec (''cat '' @ LAST_SYNC_FILE) None]\<rparr>)
             \<and> exec sb (''cat '' @ LAST_SYNC_FILE) None (state w5) = (Inr tsResult, s')"
      by simp
  qed
  from fatal config_sync_details_bounded [of configResult] tail same fin
  show ?thesis by blast
qed

lemma syncToR2_config_gate_example:
  "hasR2Config env_r2 \<and> never_throws steady_sandbox
   \<and> fst (detectConfigDir steady_sandbox (mock_world partial_queue)) = Inr (Some ''/root/.openclaw'')
   \<and> fst (runRcloneWithFreshConfig steady_sandbox env_r2
            (config_sync_command env_r2 ''/root/.openclaw'') (Some SYNC_TIMEOUT)
            (snd (detectConfigDir steady_sandbox (mock_world partial_queue))))
       = Inr (rclone_result (exec_ok []))
   \<and> rclone_success (rclone_result (exec_ok []))
   \<and> (\<exists>(w5 :: _ world) tsResult s'. syncToR2 steady_sandbox env_r2 (mock_world partial_queue) =
          (Inr \<lparr>sync_success = True, lastSync = map_option trim (stdout tsResult),
                sync_error = None, details = None\<rparr>,
           \<lparr>state = s', calls = calls w5 @ [Exec (''cat '' @ LAST_SYNC_FILE) None]\<rparr>)
        \<and> exec steady_sandbox (''cat '' @ LAST_SYNC_FILE) None (state w5) = (Inr tsResult, s'))
   \<and> fst (syncToR2 steady_sandbox env_r2 (mock_world partial_queue)) =
       Inr \<lparr>sync_success = True, lastSync = Some ''2026-01-01T00:00:00+00:00'',
            sync_error = None, details = None\<rparr>
   \<and> \<not> rclone_success (rclone_result (exec_failed ''AccessDenied''))
   \<and> fst (syncToR2 steady_sandbox env_r2
            (mock_world [Inr (exec_ok ''openclaw\<newline>''), Inr (exec_failed ''AccessDenied'')])) =
       Inr \<lparr>sync_success = False, lastSync = None, sync_error = Some ''Config sync failed'',
            details = Some ''AccessDenied''\<rparr>"
proof -
  let ?w = "mock_world partial_queue"
  let ?run = "runRcloneWithFreshConfig steady_sandbox env_r2
            (config_sync_command env_r2 ''/root/.openclaw'') (Some SYNC_TIMEOUT)"
  let ?v = "mock_world [Inr (exec_ok ''openclaw\<newline>''), Inr (exec_failed ''AccessDenied'')]"
  have d: "fst (detectConfigDir steady_sandbox ?w) = Inr (Some ''/root/.openclaw'')"
    by (simp add: partial_queue_def mock_eval)
  have r: "fst (?run (snd (detectConfigDir steady_sandbox ?w))) = Inr (rclone_result (exec_ok []))"
    by (simp add: runRclone_configured [OF env_r2_configured] partial_queue_def mock_eval)
  have ok: "rclone_success (rclone_result (exec_ok []))"
    by (simp add: rclone_result_def exec_ok_def)
  have full: "fst (syncToR2 steady_sandbox env_r2 ?w) =
       Inr \<lparr>sync_success = True, lastSync = Some ''2026-01-01T00:00:00+00:00'',
            sync_error = None, details = None\<rparr>"
    by (simp add: env_r2_configured runRclone_configured [OF env_r2_configured] partial_queue_def
        syncToR2_def sync_after_config_def mock_eval)
  have dv: "fst (detectConfigDir steady_sandbox ?v) = Inr (Some ''/root/.openclaw'')"
    by (simp add: mock_eval)
  have rv: "fst (?run (snd (detectConfigDir steady_sandbox ?v))) =
              Inr (rclone_result (exec_failed ''AccessDenied''))"
    by (simp add: runRclone_configured [OF env_r2_configured] mock_eval)
  have bad: "\<not> rclone_success (rclone_result (exec_failed ''AccessDenied''))"
    by (simp add: rclone_result_def exec_failed_def)
  have det: "config_sync_details (rclone_result (exec_failed ''AccessDenied'')) = ''AccessDenied''"
    by (simp add: config_sync_details_def rclone_result_def exec_failed_def or_empty_def
        filter_Boolean_def slice_last_def Let_def)
  note g = syncToR2_config_gate [OF env_r2_configured pair_fst_snd [OF d] pair_fst_snd [OF r]]
  note f = syncToR2_config_gate [OF env_r2_configured pair_fst_snd [OF dv] pair_fst_snd [OF rv]]
  from g ok steady_never_throws
  have one: "\<exists>(w5 :: _ world) tsResult s'. syncToR2 steady_sandbox env_r2 ?w =
          (Inr \<lparr>sync_success = True, lastSync = map_option trim (stdout tsResult),
                sync_error = None, details = None\<rparr>,
           \<lparr>state = s', calls = calls w5 @ [Exec (''cat '' @ LAST_SYNC_FILE) None]\<rparr>)
        \<and> exec steady_sandbox (''cat '' @ LAST_SYNC_FILE) None (state w5) = (Inr tsResult, s')"
    by blast
  from f bad
  have "syncToR2 steady_sandbox env_r2 ?v =
       (Inr \<lparr>sync_success = False, lastSync = None, sync_error = Some ''Config sync failed'',
             details = Some (config_sync_details (rclone_result (exec_failed ''AccessDenied'')))\<rparr>,
        snd (?run (snd (detectConfigDir steady_sandbox ?v))))"
    by blast
  with det
  have two: "fst (syncToR2 steady_sandbox env_r2 ?v) =
       Inr \<lparr>sync_success = False, lastSync = None, sync_error = Some ''Config sync failed'',
            details = Some ''AccessDenied''\<rparr>"
    by simp
  from env_r2_configured steady_never_throws d r ok one full bad two
  show ?thesis by blast
qed

section \<open>Properties of the connectivity probe (GET /storage/test)\<close>




section \<open>Properties of the approve-all handler (POST /devices/approve-all)\<close>

lemmas approve_defs = approve_device_def approve_attempt_def io_catch_def io_bind_def
  io_return_def sandbox_startProcess_def sandbox_waitForProcess_def sandbox_getLogs_def
  read_exitCode_def record_call_def Let_def

text \<open>A turn whose three sandbox calls resolve: the outcome is read off the logs and the
  exit status, and the world is the one the log read left.\<close>

lemma approve_device_completed:
  assumes "startProcess sb (approve_command (requestId d) ta) (state w) = (Inr p, s1)"
    and "waitForProcess sb p CLI_TIMEOUT_MS s1 = (Inr (), s2)"
    and "getLogs sb p s2 = (Inr logs, s3)"
  shows "approve_device sb ta d w =
          (Inr \<lparr>outcome_requestId = requestId d,
                outcome_success =
                  ((case logs_stdout logs of
                      None \<Rightarrow> False
                    | Some out \<Rightarrow> includes_js (toLowerCase out) ''approved'')
                   \<or> proc_exitCode sb p s3 = Some 0),
                outcome_error = None\<rparr>,
           \<lparr>state = s3,
            calls = calls w @ [StartProcess (approve_command (requestId d) ta) (Some p),
                               WaitForProcess p CLI_TIMEOUT_MS, GetLogs p]\<rparr>)"
  using assms by (simp add: approve_defs)

text \<open>A turn never throws, whatever the sandbox does, and its calls fit its outcome.\<close>

lemma approve_device_step:
  "\<exists>r w' cs. approve_device sb ta d w = (Inr r, w') \<and> calls w' = calls w @ cs
     \<and> turn_ok ta d r cs"
proof (cases "startProcess sb (approve_command (requestId d) ta) (state w)")
  case (Pair r1 s1)
  note P1 = this
  show ?thesis
  proof (cases r1)
    case (Inl err)
    have "approve_device sb ta d w =
            (Inr \<lparr>outcome_requestId = requestId d, outcome_success = False,
                  outcome_error = Some (error_message err)\<rparr>,
             \<lparr>state = s1,
              calls = calls w @ [StartProcess (approve_command (requestId d) ta) None]\<rparr>)"
      using P1 Inl by (simp add: approve_defs)
    moreover have "turn_ok ta d
        \<lparr>outcome_requestId = requestId d, outcome_success = False,
         outcome_error = Some (error_message err)\<rparr>
        [StartProcess (approve_command (requestId d) ta) None]"
      by (simp add: turn_ok_def)
    ultimately show ?thesis by fastforce
  next
    case (Inr p)
    note R1 = this
    show ?thesis
    proof (cases "waitForProcess sb p CLI_TIMEOUT_MS s1")
      case (Pair r2 s2)
      note P2 = this
      show ?thesis
      proof (cases r2)
        case (Inl err)
        have "approve_device sb ta d w =
            (Inr \<lparr>outcome_requestId = requestId d, outcome_success = False,
                  outcome_error = Some (error_message err)\<rparr>,
             \<lparr>state = s2,
              calls = calls w @ [StartProcess (approve_command (requestId d) ta) (Some p),
                                 WaitForProcess p CLI_TIMEOUT_MS]\<rparr>)"
          using P1 R1 P2 Inl by (simp add: approve_defs)
        moreover have "turn_ok ta d
            \<lparr>outcome_requestId = requestId d, outcome_success = False,
             outcome_error = Some (error_message err)\<rparr>
            [StartProcess (approve_command (requestId d) ta) (Some p),
             WaitForProcess p CLI_TIMEOUT_MS]"
          by (simp add: turn_ok_def)
        ultimately show ?thesis by fastforce
      next
        case (Inr u)
        note R2 = this
        show ?thesis
        proof (cases "getLogs sb p s2")
          case (Pair r3 s3)
          note P3 = this
          show ?thesis
          proof (cases r3)
            case (Inl err)
            have "approve_device sb ta d w =
                (Inr \<lparr>outcome_requestId = requestId d, outcome_success = False,
                      outcome_error = Some (error_message err)\<rparr>,
                 \<lparr>state = s3,
                  calls = calls w @ [StartProcess (approve_command (requestId d) ta) (Some p),
                                     WaitForProcess p CLI_TIMEOUT_MS, GetLogs p]\<rparr>)"
              using P1 R1 P2 R2 P3 Inl by (simp add: approve_defs)
            moreover have "turn_ok ta d
                \<lparr>outcome_requestId = requestId d, outcome_success = False,
                 outcome_error = Some (error_message err)\<rparr>
                [StartProcess (approve_command (requestId d) ta) (Some p),
                 WaitForProcess p CLI_TIMEOUT_MS, GetLogs p]"
              by (simp add: turn_ok_def)
            ultimately show ?thesis by fastforce
          next
            case (Inr logs)
            have a: "startProcess sb (approve_command (requestId d) ta) (state w) = (Inr p, s1)"
              using P1 R1 by simp
            have b: "waitForProcess sb p CLI_TIMEOUT_MS s1 = (Inr (), s2)"
              using P2 R2 by simp
            have c: "getLogs sb p s2 = (Inr logs, s3)"
              using P3 Inr by simp
            have "turn_ok ta d
                \<lparr>outcome_requestId = requestId d,
                 outcome_success =
                   ((case logs_stdout logs of
                       None \<Rightarrow> False
                     | Some out \<Rightarrow> includes_js (toLowerCase out) ''approved'')
                    \<or> proc_exitCode sb p s3 = Some 0),
                 outcome_error = None\<rparr>
                [StartProcess (approve_command (requestId d) ta) (Some p),
                 WaitForProcess p CLI_TIMEOUT_MS, GetLogs p]"
              by (simp add: turn_ok_def)
            with approve_device_completed [OF a b c] show ?thesis by fastforce
          qed
        qed
      qed
    qed
  qed
qed

lemma approve_loop_total:
  "\<exists>rs w' turns. approve_loop sb ta ps acc w = (Inr (acc @ rs), w')
     \<and> calls w' = calls w @ concat turns
     \<and> one_after_another ta ps rs turns"
proof (induction ps arbitrary: acc w)
  case Nil
  have "approve_loop sb ta [] acc w = (Inr (acc @ []), w) \<and> calls w = calls w @ concat []
      \<and> one_after_another ta [] [] []"
    by (simp add: io_return_def)
  then show ?case by blast
next
  case (Cons d ps)
  obtain r w1 cs where step: "approve_device sb ta d w = (Inr r, w1)"
    "calls w1 = calls w @ cs" "turn_ok ta d r cs"
    using approve_device_step [of sb ta d w] by blast
  obtain rs w2 turns where rest: "approve_loop sb ta ps (acc @ [r]) w1 = (Inr ((acc @ [r]) @ rs), w2)"
    "calls w2 = calls w1 @ concat turns" "one_after_another ta ps rs turns"
    using Cons.IH [of "acc @ [r]" w1] by blast
  have "approve_loop sb ta (d # ps) acc w = (Inr (acc @ (r # rs)), w2)"
    using step(1) rest(1) by (simp add: io_bind_def)
  moreover have "calls w2 = calls w @ concat (cs # turns)"
    using step(2) rest(2) by simp
  moreover have "one_after_another ta (d # ps) (r # rs) (cs # turns)"
    using step(3) rest(3) by simp
  ultimately show ?case by blast
qed

lemma one_after_another_outcomes:
  "one_after_another ta ps rs turns \<Longrightarrow>
     length rs = length ps \<and> length turns = length ps \<and>
     map outcome_requestId rs = map requestId ps"
  by (induction ta ps rs turns rule: one_after_another.induct) (auto simp add: turn_ok_def split: list.splits call.splits)

lemma approved_failed_length:
  "length (approved_of rs) + length (failed_of rs) = length rs"
  by (simp add: approved_of_def failed_of_def sum_length_filter_compl)

subsection \<open>The example sandbox\<close>

lemma device_sandbox_calls:
  "ensureMoltbotGateway device_sandbox e s = (Inr (), s)"
  "waitForProcess device_sandbox p t s = (Inr (), s)"
  "startProcess device_sandbox (list_command []) s = (Inr 0, s)"
  "startProcess device_sandbox (approve_command ''req-a'' []) s = (Inl (Error ''spawn failed''), s)"
  "startProcess device_sandbox (approve_command ''req-b'' []) s = (Inr 1, s)"
  "startProcess device_sandbox (approve_command ''req-c'' []) s = (Inr 2, s)"
  "startProcess device_sandbox (approve_command ''req-d'' []) s = (Inr 3, s)"
  "getLogs device_sandbox p s =
     (Inr \<lparr>logs_stdout = Some (if p = 0 then ''{}''
                                    else if p = 1 then ''Approved device req-b''
                                    else if p = 2 then ''done''
                                    else ''unknown requestId''),
               logs_stderr = Some []\<rparr>, s)"
  "proc_exitCode device_sandbox p s = (if p = 2 then Some 0 else Some 1)"
  by (simp_all add: device_sandbox_def list_command_def approve_command_def)

lemma marker_examples:
  "includes_js (toLowerCase ''Approved device req-b'') ''approved''"
  "\<not> includes_js (toLowerCase ''done'') ''approved''"
  "\<not> includes_js (toLowerCase ''unknown requestId'') ''approved''"
  by code_simp+

lemma digit_examples: "char_of (50::nat) = CHR ''2''" "char_of (52::nat) = CHR ''4''"
  by code_simp+

lemma tokenArg_empty: "tokenArg_of env_empty = []"
  by (simp add: tokenArg_of_def getGatewayToken_def env_empty_def truthy_def)

lemmas device_eval = approve_all_def approve_defs sandbox_ensureMoltbotGateway_def
  device_sandbox_calls marker_examples digit_examples tokenArg_empty example_pending_def
  none_pending_def device_world_def approve_all_response_def approved_of_def failed_of_def
  outcome_json_def error_message_def or_empty_def

lemma device_run:
  "approve_all device_sandbox example_pending env_empty device_world =
     (Inr (Json (JObj
       [(''approved'', JArr [JStr ''req-b'', JStr ''req-c'']),
        (''failed'', JArr
           [JObj [(''requestId'', JStr ''req-a''), (''success'', JBool False),
                  (''error'', JStr ''spawn failed'')],
            JObj [(''requestId'', JStr ''req-d''), (''success'', JBool False)]]),
        (''message'', JStr ''Approved 2 of 4 device(s)'')]) 200),
      \<lparr>state = (),
       calls =
         [EnsureGateway, StartProcess (list_command []) (Some 0),
          WaitForProcess 0 CLI_TIMEOUT_MS, GetLogs 0,
          StartProcess (approve_command ''req-a'' []) None,
          StartProcess (approve_command ''req-b'' []) (Some 1),
          WaitForProcess 1 CLI_TIMEOUT_MS, GetLogs 1,
          StartProcess (approve_command ''req-c'' []) (Some 2),
          WaitForProcess 2 CLI_TIMEOUT_MS, GetLogs 2,
          StartProcess (approve_command ''req-d'' []) (Some 3),
          WaitForProcess 3 CLI_TIMEOUT_MS, GetLogs 3]\<rparr>)"
  by (simp add: device_eval)

text \<open>
  C8, as stated, fails at N = 0: when the list call returns no pending request the
  handler answers \<open>{approved: [], message}\<close>. The answer has no \<open>failed\<close> array, so
  \<open>approved.length + failed.length\<close> is not defined on it.
\<close>

theorem empty_list_answer_has_no_failed_array:
  "fst (approve_all device_sandbox none_pending env_empty device_world) =
     Inr (Json (JObj [(''approved'', JArr []),
                      (''message'', JStr ''No pending devices to approve'')]) 200)
   \<and> body_field ''failed''
        (Json (JObj [(''approved'', JArr []),
                     (''message'', JStr ''No pending devices to approve'')]) 200) = None
   \<and> body_field ''approved''
        (Json (JObj [(''approved'', JArr []),
                     (''message'', JStr ''No pending devices to approve'')]) 200) = Some (JArr [])"
  by (simp add: device_eval body_field_def)

text \<open>
  C8, amended. Once the gateway is up and the single list call has returned the pending
  requests: for an empty list the answer is \<open>{approved: [], message}\<close>, with no \<open>failed\<close>
  array. For a non-empty list of N requests the handler works through them one after
  another in list order: after the list call, the calls it makes are exactly the turns
  of the devices, each turn starting the approve process of its device and, when the
  start resolves, waiting for that process and then reading its logs before the next
  turn begins. A turn that throws at any of these calls is recorded as a failure and the
  next turn follows all the same. The answer is \<open>{approved, failed, message}\<close> with
  \<open>approved.length + failed.length = N\<close>. The loop itself returns for every sandbox,
  with one outcome per request, even when every approval fails.
\<close>

theorem approve_all_accounts_for_every_device:
  assumes "ensureMoltbotGateway sb e (state w) = (Inr (), s1)"
    and "startProcess sb (list_command (tokenArg_of e)) s1 = (Inr listProc, s2)"
    and "waitForProcess sb listProc CLI_TIMEOUT_MS s2 = (Inr (), s3)"
    and "getLogs sb listProc s3 = (Inr listLogs, s4)"
    and "parse (or_empty (logs_stdout listLogs)) = Inr pending"
  shows "(pending = [] \<longrightarrow>
            fst (approve_all sb parse e w) =
              Inr (Json (JObj [(''approved'', JArr []),
                               (''message'', JStr ''No pending devices to approve'')]) 200))
       \<and> (pending \<noteq> [] \<longrightarrow>
            (\<exists>results turns w'.
               approve_all sb parse e w =
                 (Inr (Json (JObj
                    [(''approved'', JArr (map JStr (approved_of results))),
                     (''failed'', JArr (map outcome_json (failed_of results))),
                     (''message'', JStr (''Approved '' @ show_nat (length (approved_of results)) @
                        '' of '' @ show_nat (length pending) @ '' device(s)''))]) 200), w')
               \<and> map outcome_requestId results = map requestId pending
               \<and> length (approved_of results) + length (failed_of results) = length pending
               \<and> calls_since w w' =
                   [EnsureGateway, StartProcess (list_command (tokenArg_of e)) (Some listProc),
                    WaitForProcess listProc CLI_TIMEOUT_MS, GetLogs listProc] @ concat turns
               \<and> one_after_another (tokenArg_of e) pending results turns))
       \<and> (\<forall>w0. \<exists>results w1. approve_loop sb (tokenArg_of e) pending [] w0 = (Inr results, w1)
              \<and> length results = length pending)"
proof -
  let ?ta = "tokenArg_of e"
  let ?w1 = "record_call EnsureGateway s1 w"
  let ?w2 = "record_call (StartProcess (list_command ?ta) (Some listProc)) s2 ?w1"
  let ?w3 = "record_call (WaitForProcess listProc CLI_TIMEOUT_MS) s3 ?w2"
  let ?w4 = "record_call (GetLogs listProc) s4 ?w3"
  let ?tail = "if length pending = 0 then
                 io_return (Json (JObj [(''approved'', JArr []),
                                        (''message'', JStr ''No pending devices to approve'')]) 200)
               else io_bind (approve_loop sb ?ta pending []) (\<lambda>results.
                    io_return (approve_all_response pending results))"
  let ?handler = "\<lambda>error. io_return (Json (JObj [(''error'', JStr (error_message error))]) 500)"
  have e1: "sandbox_ensureMoltbotGateway sb e w = (Inr (), ?w1)"
    using assms(1) by (simp add: sandbox_ensureMoltbotGateway_def)
  have e2: "sandbox_startProcess sb (list_command ?ta) ?w1 = (Inr listProc, ?w2)"
    using assms(2) by (simp add: sandbox_startProcess_def record_call_def)
  have e3: "sandbox_waitForProcess sb listProc CLI_TIMEOUT_MS ?w2 = (Inr (), ?w3)"
    using assms(3) by (simp add: sandbox_waitForProcess_def record_call_def)
  have e4: "sandbox_getLogs sb listProc ?w3 = (Inr listLogs, ?w4)"
    using assms(4) by (simp add: sandbox_getLogs_def record_call_def)
  have c4: "calls ?w4 = calls w @ [EnsureGateway, StartProcess (list_command ?ta) (Some listProc),
       WaitForProcess listProc CLI_TIMEOUT_MS, GetLogs listProc]"
    by (simp add: record_call_def)
  have body: "approve_all sb parse e w = io_catch ?tail ?handler ?w4"
    unfolding approve_all_def Let_def
    by (simp add: io_catch_def io_bind_def e1 e2 e3 e4 assms(5))
  have loop: "\<exists>results w1. approve_loop sb ?ta pending [] w0 = (Inr results, w1)
              \<and> length results = length pending" for w0
  proof -
    obtain rs w1 turns where l: "approve_loop sb ?ta pending [] w0 = (Inr ([] @ rs), w1)"
      "one_after_another ?ta pending rs turns"
      using approve_loop_total [of sb ?ta pending "[]" w0] by blast
    have "length rs = length pending"
      using one_after_another_outcomes [OF l(2)] by simp
    with l(1) show ?thesis by simp
  qed
  have empty: "fst (approve_all sb parse e w) =
              Inr (Json (JObj [(''approved'', JArr []),
                               (''message'', JStr ''No pending devices to approve'')]) 200)"
    if "pending = []"
    using that by (simp add: body io_catch_def io_return_def)
  have nonempty: "\<exists>results turns w'.
               approve_all sb parse e w =
                 (Inr (Json (JObj
                    [(''approved'', JArr (map JStr (approved_of results))),
                     (''failed'', JArr (map outcome_json (failed_of results))),
                     (''message'', JStr (''Approved '' @ show_nat (length (approved_of results)) @
                        '' of '' @ show_nat (length pending) @ '' device(s)''))]) 200), w')
               \<and> map outcome_requestId results = map requestId pending
               \<and> length (approved_of results) + length (failed_of results) = length pending
               \<and> calls_since w w' =
                   [EnsureGateway, StartProcess (list_command ?ta) (Some listProc),
                    WaitForProcess listProc CLI_TIMEOUT_MS, GetLogs listProc] @ concat turns
               \<and> one_after_another ?ta pending results turns"
    if ne: "pending \<noteq> []"
  proof -
    obtain rs w' turns where l: "approve_loop sb ?ta pending [] ?w4 = (Inr ([] @ rs), w')"
      "calls w' = calls ?w4 @ concat turns"
      "one_after_another ?ta pending rs turns"
      using approve_loop_total [of sb ?ta pending "[]" ?w4] by blast
    have o: "length rs = length pending" "map outcome_requestId rs = map requestId pending"
      using one_after_another_outcomes [OF l(3)] by simp_all
    have r: "approve_all sb parse e w = (Inr (approve_all_response pending rs), w')"
      using ne l(1) by (simp add: body io_catch_def io_bind_def io_return_def)
    have t: "calls_since w w' =
               [EnsureGateway, StartProcess (list_command ?ta) (Some listProc),
                WaitForProcess listProc CLI_TIMEOUT_MS, GetLogs listProc] @ concat turns"
      using l(2) c4 by (simp add: calls_since_def)
    have m: "approve_all_response pending rs =
        Json (JObj
           [(''approved'', JArr (map JStr (approved_of rs))),
            (''failed'', JArr (map outcome_json (failed_of rs))),
            (''message'', JStr (''Approved '' @ show_nat (length (approved_of rs)) @
                        '' of '' @ show_nat (length pending) @ '' device(s)''))]) 200"
      by (simp add: approve_all_response_def approved_of_def Let_def)
    have s: "length (approved_of rs) + length (failed_of rs) = length pending"
      using approved_failed_length [of rs] o(1) by simp
    from r m o(2) s t l(3) show ?thesis by metis
  qed
  from empty nonempty loop show ?thesis by blast
qed

theorem approve_all_accounts_for_every_device_witness:
  "ensureMoltbotGateway device_sandbox env_empty (state device_world) = (Inr (), ())
   \<and> startProcess device_sandbox (list_command (tokenArg_of env_empty)) () = (Inr 0, ())
   \<and> waitForProcess device_sandbox 0 CLI_TIMEOUT_MS () = (Inr (), ())
   \<and> getLogs device_sandbox 0 () = (Inr \<lparr>logs_stdout = Some ''{}'', logs_stderr = Some []\<rparr>, ())
   \<and> example_pending (or_empty (logs_stdout \<lparr>logs_stdout = Some ''{}'', logs_stderr = Some []\<rparr>)) =
       Inr [\<lparr>requestId = ''req-a''\<rparr>, \<lparr>requestId = ''req-b''\<rparr>, \<lparr>requestId = ''req-c''\<rparr>,
                \<lparr>requestId = ''req-d''\<rparr>]
   \<and> (\<exists>results turns w'.
         approve_all device_sandbox example_pending env_empty device_world =
           (Inr (Json (JObj
              [(''approved'', JArr (map JStr (approved_of results))),
               (''failed'', JArr (map outcome_json (failed_of results))),
               (''message'', JStr (''Approved '' @ show_nat (length (approved_of results)) @
                  '' of '' @ show_nat (length
                    [\<lparr>requestId = ''req-a''\<rparr>, \<lparr>requestId = ''req-b''\<rparr>, \<lparr>requestId = ''req-c''\<rparr>,
                \<lparr>requestId = ''req-d''\<rparr>]) @
                  '' device(s)''))]) 200), w')
         \<and> map outcome_requestId results = map requestId
               [\<lparr>requestId = ''req-a''\<rparr>, \<lparr>requestId = ''req-b''\<rparr>, \<lparr>requestId = ''req-c''\<rparr>,
                \<lparr>requestId = ''req-d''\<rparr>]
         \<and> length (approved_of results) + length (failed_of results) = length
               [\<lparr>requestId = ''req-a''\<rparr>, \<lparr>requestId = ''req-b''\<rparr>, \<lparr>requestId = ''req-c''\<rparr>,
                \<lparr>requestId = ''req-d''\<rparr>]
         \<and> calls_since device_world w' =
             [EnsureGateway, StartProcess (list_command (tokenArg_of env_empty)) (Some 0),
              WaitForProcess 0 CLI_TIMEOUT_MS, GetLogs 0] @ concat turns
         \<and> one_after_another (tokenArg_of env_empty)
               [\<lparr>requestId = ''req-a''\<rparr>, \<lparr>requestId = ''req-b''\<rparr>, \<lparr>requestId = ''req-c''\<rparr>,
                \<lparr>requestId = ''req-d''\<rparr>]
               results turns)
   \<and> fst (approve_all device_sandbox example_pending env_empty device_world) =
     Inr (Json (JObj
       [(''approved'', JArr [JStr ''req-b'', JStr ''req-c'']),
        (''failed'', JArr
           [JObj [(''requestId'', JStr ''req-a''), (''success'', JBool False),
                  (''error'', JStr ''spawn failed'')],
            JObj [(''requestId'', JStr ''req-d''), (''success'', JBool False)]]),
        (''message'', JStr ''Approved 2 of 4 device(s)'')]) 200)
   \<and> one_after_another []
        [\<lparr>requestId = ''req-a''\<rparr>, \<lparr>requestId = ''req-b''\<rparr>, \<lparr>requestId = ''req-c''\<rparr>,
                \<lparr>requestId = ''req-d''\<rparr>]
        [\<lparr>outcome_requestId = ''req-a'', outcome_success = False,
          outcome_error = Some ''spawn failed''\<rparr>,
         \<lparr>outcome_requestId = ''req-b'', outcome_success = True, outcome_error = None\<rparr>,
         \<lparr>outcome_requestId = ''req-c'', outcome_success = True, outcome_error = None\<rparr>,
         \<lparr>outcome_requestId = ''req-d'', outcome_success = False, outcome_error = None\<rparr>]
        [[StartProcess (approve_command ''req-a'' []) None],
         [StartProcess (approve_command ''req-b'' []) (Some 1),
          WaitForProcess 1 CLI_TIMEOUT_MS, GetLogs 1],
         [StartProcess (approve_command ''req-c'' []) (Some 2),
          WaitForProcess 2 CLI_TIMEOUT_MS, GetLogs 2],
         [StartProcess (approve_command ''req-d'' []) (Some 3),
          WaitForProcess 3 CLI_TIMEOUT_MS, GetLogs 3]]"
proof -
  have h: "ensureMoltbotGateway device_sandbox env_empty (state device_world) = (Inr (), ())"
    "startProcess device_sandbox (list_command (tokenArg_of env_empty)) () = (Inr 0, ())"
    "waitForProcess device_sandbox 0 CLI_TIMEOUT_MS () = (Inr (), ())"
    "getLogs device_sandbox 0 () = (Inr \<lparr>logs_stdout = Some ''{}'', logs_stderr = Some []\<rparr>, ())"
    "example_pending (or_empty (logs_stdout \<lparr>logs_stdout = Some ''{}'', logs_stderr = Some []\<rparr>)) =
       Inr [\<lparr>requestId = ''req-a''\<rparr>, \<lparr>requestId = ''req-b''\<rparr>, \<lparr>requestId = ''req-c''\<rparr>,
                \<lparr>requestId = ''req-d''\<rparr>]"
    by (simp_all add: device_sandbox_calls tokenArg_empty example_pending_def)
  have ne: "[\<lparr>requestId = ''req-a''\<rparr>, \<lparr>requestId = ''req-b''\<rparr>, \<lparr>requestId = ''req-c''\<rparr>,
                \<lparr>requestId = ''req-d''\<rparr>] \<noteq> []"
    by simp
  note t = approve_all_accounts_for_every_device
    [where parse = example_pending and sb = device_sandbox and e = env_empty and w = device_world,
      OF h]
  from t ne have e: "(\<exists>results turns w'.
         approve_all device_sandbox example_pending env_empty device_world =
           (Inr (Json (JObj
              [(''approved'', JArr (map JStr (approved_of results))),
               (''failed'', JArr (map outcome_json (failed_of results))),
               (''message'', JStr (''Approved '' @ show_nat (length (approved_of results)) @
                  '' of '' @ show_nat (length
                    [\<lparr>requestId = ''req-a''\<rparr>, \<lparr>requestId = ''req-b''\<rparr>, \<lparr>requestId = ''req-c''\<rparr>,
                \<lparr>requestId = ''req-d''\<rparr>]) @
                  '' device(s)''))]) 200), w')
         \<and> map outcome_requestId results = map requestId
               [\<lparr>requestId = ''req-a''\<rparr>, \<lparr>requestId = ''req-b''\<rparr>, \<lparr>requestId = ''req-c''\<rparr>,
                \<lparr>requestId = ''req-d''\<rparr>]
         \<and> length (approved_of results) + length (failed_of results) = length
               [\<lparr>requestId = ''req-a''\<rparr>, \<lparr>requestId = ''req-b''\<rparr>, \<lparr>requestId = ''req-c''\<rparr>,
                \<lparr>requestId = ''req-d''\<rparr>]
         \<and> calls_since device_world w' =
             [EnsureGateway, StartProcess (list_command (tokenArg_of env_empty)) (Some 0),
              WaitForProcess 0 CLI_TIMEOUT_MS, GetLogs 0] @ concat turns
         \<and> one_after_another (tokenArg_of env_empty)
               [\<lparr>requestId = ''req-a''\<rparr>, \<lparr>requestId = ''req-b''\<rparr>, \<lparr>requestId = ''req-c''\<rparr>,
                \<lparr>requestId = ''req-d''\<rparr>]
               results turns)"
    by blast
  have r: "fst (approve_all device_sandbox example_pending env_empty device_world) =
     Inr (Json (JObj
       [(''approved'', JArr [JStr ''req-b'', JStr ''req-c'']),
        (''failed'', JArr
           [JObj [(''requestId'', JStr ''req-a''), (''success'', JBool False),
                  (''error'', JStr ''spawn failed'')],
            JObj [(''requestId'', JStr ''req-d''), (''success'', JBool False)]]),
        (''message'', JStr ''Approved 2 of 4 device(s)'')]) 200)"
    by (simp add: device_run)
  have c: "one_after_another []
        [\<lparr>requestId = ''req-a''\<rparr>, \<lparr>requestId = ''req-b''\<rparr>, \<lparr>requestId = ''req-c''\<rparr>,
                \<lparr>requestId = ''req-d''\<rparr>]
        [\<lparr>outcome_requestId = ''req-a'', outcome_success = False,
          outcome_error = Some ''spawn failed''\<rparr>,
         \<lparr>outcome_requestId = ''req-b'', outcome_success = True, outcome_error = None\<rparr>,
         \<lparr>outcome_requestId = ''req-c'', outcome_success = True, outcome_error = None\<rparr>,
         \<lparr>outcome_requestId = ''req-d'', outcome_success = False, outcome_error = None\<rparr>]
        [[StartProcess (approve_command ''req-a'' []) None],
         [StartProcess (approve_command ''req-b'' []) (Some 1),
          WaitForProcess 1 CLI_TIMEOUT_MS, GetLogs 1],
         [StartProcess (approve_command ''req-c'' []) (Some 2),
          WaitForProcess 2 CLI_TIMEOUT_MS, GetLogs 2],
         [StartProcess (approve_command ''req-d'' []) (Some 3),
          WaitForProcess 3 CLI_TIMEOUT_MS, GetLogs 3]]"
    by (simp add: turn_ok_def)
  from h e r c show ?thesis by blast
qed

end
